theory Spec2Isabelle
  imports Main
begin

section \<open>Go values used by package httpauth\<close>

text \<open>
  A Go map value is either \<open>nil\<close> or a table. Reading a key from a \<open>nil\<close> map is legal
  in Go and gives the zero value with \<open>ok = false\<close>; storing into a \<open>nil\<close> map panics.
\<close>

datatype ('k, 'v) go_map = nil | Map "'k \<rightharpoonup> 'v"

text \<open>The two-result index expression \<^verbatim>\<open>v, ok := m[k]\<close> on a \<^verbatim>\<open>map[string]string\<close>.\<close>

definition index_ok :: "(string, string) go_map \<Rightarrow> string \<Rightarrow> string \<times> bool" where
  "index_ok mp k =
     (case mp of
        nil \<Rightarrow> ('''', False)
      | Map t \<Rightarrow> (case t k of None \<Rightarrow> ('''', False) | Some v \<Rightarrow> (v, True)))"

text \<open>The run-time panics that the calls of this package can raise.\<close>

datatype panic = panic string

definition assignment_to_nil_map :: panic where
  "assignment_to_nil_map = panic ''assignment to entry in nil map''"

definition nil_pointer_dereference :: panic where
  "nil_pointer_dereference =
     panic ''runtime error: invalid memory address or nil pointer dereference''"

text \<open>Go's \<open>error\<close> values, as their messages.\<close>

datatype error = errorString string

section \<open>Checker and its implementations\<close>

text \<open>
  \<^verbatim>\<open>type Checker interface { Check(username, password string) bool }\<close>:
  a value of the interface is given by its one method.
\<close>

type_synonym Checker = "string \<Rightarrow> string \<Rightarrow> bool"

text \<open>\<^verbatim>\<open>type creds struct { m map[string]string }\<close>\<close>

record creds =
  creds_m :: "(string, string) go_map"

text \<open>
  \<^verbatim>\<open>func (c creds) Check(username, password string) bool {
      p, ok := c.m[username]
      return ok && p == password
  }\<close>
\<close>

definition creds_Check :: "creds \<Rightarrow> string \<Rightarrow> string \<Rightarrow> bool" where
  "creds_Check c username password =
     (let (p, ok) = index_ok (creds_m c) username in ok \<and> p = password)"

text \<open>\<^verbatim>\<open>func Creds(m map[string]string) Checker { return creds{m: m} }\<close>\<close>

definition Creds :: "(string, string) go_map \<Rightarrow> Checker" where
  "Creds mp = creds_Check \<lparr>creds_m = mp\<rparr>"

text \<open>
  The earlier revision of the file declares \<^verbatim>\<open>type Creds map[string]string\<close> and gives the
  map type itself the method, with an explicit guard for \<open>nil\<close>:
  \<^verbatim>\<open>func (c Creds) Check(username, password string) bool {
      if c == nil { return false }
      if p, ok := c[username]; ok && p == password { return true }
      return false
  }\<close>
\<close>

definition Creds_Check :: "(string, string) go_map \<Rightarrow> string \<Rightarrow> string \<Rightarrow> bool" where
  "Creds_Check c username password =
     (if c = nil then False
      else (let (p, ok) = index_ok c username in
            if ok \<and> p = password then True else False))"

text \<open>
  \<^verbatim>\<open>type None struct{}\<close> and
  \<^verbatim>\<open>func (n None) Check(username, password string) bool { return true }\<close>
\<close>

datatype None_struct = None_struct

definition None_Check :: "None_struct \<Rightarrow> string \<Rightarrow> string \<Rightarrow> bool" where
  "None_Check n username password = True"

text \<open>The test double of the package's tests: \<^verbatim>\<open>type fixedChecker bool\<close>.\<close>

definition fixedChecker_Check :: "bool \<Rightarrow> string \<Rightarrow> string \<Rightarrow> bool" where
  "fixedChecker_Check c username password = c"

text \<open>
  What the specification calls "the store contains key \<open>u\<close> with value exactly \<open>p\<close>":
  the store is a table (not \<open>nil\<close>) and the table maps \<open>u\<close> to the very string \<open>p\<close>.
\<close>

definition contains_pair :: "(string, string) go_map \<Rightarrow> string \<Rightarrow> string \<Rightarrow> bool" where
  "contains_pair mp u p = (case mp of nil \<Rightarrow> False | Map t \<Rightarrow> t u = Some p)"

section \<open>The standard library, as far as the package calls it\<close>

subsection \<open>Bytes\<close>

definition isUpper :: "char \<Rightarrow> bool" where
  "isUpper ch = (of_char (CHR ''A'') \<le> (of_char ch :: nat) \<and> (of_char ch :: nat) \<le> of_char (CHR ''Z''))"

definition isLower :: "char \<Rightarrow> bool" where
  "isLower ch = (of_char (CHR ''a'') \<le> (of_char ch :: nat) \<and> (of_char ch :: nat) \<le> of_char (CHR ''z''))"

definition isDigit :: "char \<Rightarrow> bool" where
  "isDigit ch = (of_char (CHR ''0'') \<le> (of_char ch :: nat) \<and> (of_char ch :: nat) \<le> of_char (CHR ''9''))"

text \<open>\<open>toLower = 'a' - 'A'\<close>, added to an upper-case letter or taken from a lower-case one.\<close>

definition lower :: "char \<Rightarrow> char" where
  "lower b = (if isUpper b then char_of (of_char b + (32 :: nat)) else b)"

definition upper :: "char \<Rightarrow> char" where
  "upper b = (if isLower b then char_of (of_char b - (32 :: nat)) else b)"

text \<open>
  \<^verbatim>\<open>ascii.EqualFold(s, t)\<close>: the same length and, byte by byte, equal after \<open>lower\<close>.
\<close>

definition EqualFold :: "string \<Rightarrow> string \<Rightarrow> bool" where
  "EqualFold s t = (map lower s = map lower t)"

text \<open>
  \<^verbatim>\<open>strings.Cut(s, sep)\<close> for a separator of one byte: the text before and after the first
  occurrence of the separator, or \<open>(s, "", false)\<close> when there is none.
\<close>

definition Cut :: "string \<Rightarrow> char \<Rightarrow> string \<times> string \<times> bool" where
  "Cut s sep =
     (if sep \<in> set s
      then (takeWhile (\<lambda>ch. ch \<noteq> sep) s, tl (dropWhile (\<lambda>ch. ch \<noteq> sep) s), True)
      else (s, '''', False))"

subsection \<open>encoding/base64, the standard encoding\<close>

definition encodeStd :: string where
  "encodeStd = ''ABCDEFGHIJKLMNOPQRSTUVWXYZabcdefghijklmnopqrstuvwxyz0123456789+/''"

text \<open>
  \<^verbatim>\<open>EncodeToString\<close>: three bytes make the 24-bit value \<open>val\<close>, written as four letters of
  the alphabet; a remainder of one or two bytes is padded with \<open>=\<close>. The shifts and masks
  of the source are \<open>div\<close> and \<open>mod\<close> by powers of two here (\<open>val < 2 ^ 24\<close>, nothing wraps).
\<close>

fun EncodeToString :: "string \<Rightarrow> string" where
  "EncodeToString (a # b # c # rest) =
     (let val = of_char a * 65536 + of_char b * 256 + of_char c :: nat in
      [encodeStd ! (val div 262144 mod 64), encodeStd ! (val div 4096 mod 64),
       encodeStd ! (val div 64 mod 64), encodeStd ! (val mod 64)] @ EncodeToString rest)"
| "EncodeToString [a, b] =
     (let val = of_char a * 65536 + of_char b * 256 :: nat in
      [encodeStd ! (val div 262144 mod 64), encodeStd ! (val div 4096 mod 64),
       encodeStd ! (val div 64 mod 64), CHR ''=''])"
| "EncodeToString [a] =
     (let val = of_char a * 65536 :: nat in
      [encodeStd ! (val div 262144 mod 64), encodeStd ! (val div 4096 mod 64),
       CHR ''='', CHR ''=''])"
| "EncodeToString [] = []"

text \<open>The conversion \<^verbatim>\<open>byte(v)\<close> keeps the low eight bits.\<close>

definition byte :: "nat \<Rightarrow> char" where
  "byte v = char_of (v mod 256)"

text \<open>The decoding table: the position of a byte in the alphabet, if it has one.\<close>

fun index_from :: "nat \<Rightarrow> string \<Rightarrow> char \<Rightarrow> nat option" where
  "index_from i [] ch = None"
| "index_from i (x # xs) ch = (if ch = x then Some i else index_from (i + 1) xs ch)"

definition decodeMap :: "char \<Rightarrow> nat option" where
  "decodeMap ch = index_from 0 encodeStd ch"

text \<open>
  One quantum of four letters gives three bytes; \<open>xy==\<close> gives one and \<open>xyz=\<close> gives two,
  and only as the last quantum. Input that ends inside a quantum, padding in another
  place, a byte outside the alphabet and anything after the padding are errors. The
  standard encoding is not strict: the unused low bits of a padded quantum are not checked.
\<close>

fun decodeQuanta :: "string \<Rightarrow> string option" where
  "decodeQuanta [] = Some []"
| "decodeQuanta (a # b # c # d # rest) =
     (case (decodeMap a, decodeMap b) of
        (Some x, Some y) \<Rightarrow>
          if c = CHR ''='' then
            (if d = CHR ''='' \<and> rest = []
             then Some [byte ((x * 262144 + y * 4096) div 65536)]
             else None)
          else
            (case decodeMap c of
               None \<Rightarrow> None
             | Some z \<Rightarrow>
                 if d = CHR ''='' then
                   (if rest = []
                    then Some [byte ((x * 262144 + y * 4096 + z * 64) div 65536),
                               byte ((x * 262144 + y * 4096 + z * 64) div 256)]
                    else None)
                 else
                   (case decodeMap d of
                      None \<Rightarrow> None
                    | Some t \<Rightarrow>
                        (case decodeQuanta rest of
                           None \<Rightarrow> None
                         | Some bs \<Rightarrow>
                             Some ([byte ((x * 262144 + y * 4096 + z * 64 + t) div 65536),
                                    byte ((x * 262144 + y * 4096 + z * 64 + t) div 256),
                                    byte (x * 262144 + y * 4096 + z * 64 + t)] @ bs))))
      | _ \<Rightarrow> None)"
| "decodeQuanta _ = None"

text \<open>
  \<^verbatim>\<open>DecodeString\<close>: carriage returns and line feeds are skipped wherever they stand;
  \<open>None\<close> is the error result.
\<close>

definition DecodeString :: "string \<Rightarrow> string option" where
  "DecodeString s = decodeQuanta (filter (\<lambda>ch. ch \<noteq> CHR 0x0A \<and> ch \<noteq> CHR 0x0D) s)"

subsection \<open>net/textproto and net/http: header maps\<close>

text \<open>The bytes of an HTTP token (\<^verbatim>\<open>validHeaderFieldByte\<close>, \<^verbatim>\<open>httpguts.IsTokenRune\<close>).\<close>

definition validHeaderFieldByte :: "char \<Rightarrow> bool" where
  "validHeaderFieldByte ch =
     (isUpper ch \<or> isLower ch \<or> isDigit ch \<or> ch \<in> set (CHR 0x27 # ''!#$%&*+-.^_`|~''))"

text \<open>
  \<^verbatim>\<open>CanonicalMIMEHeaderKey\<close>: the first letter and every letter after a hyphen in upper
  case, the others in lower case; a key with a byte that is not a token byte is returned
  as it is.
\<close>

fun canonicalCase :: "bool \<Rightarrow> string \<Rightarrow> string" where
  "canonicalCase up [] = []"
| "canonicalCase up (ch # s) =
     (let ch' = (if up then upper ch else lower ch) in
      ch' # canonicalCase (ch' = CHR ''-'') s)"

definition CanonicalMIMEHeaderKey :: "string \<Rightarrow> string" where
  "CanonicalMIMEHeaderKey s = (if list_all validHeaderFieldByte s then canonicalCase True s else s)"

text \<open>
  \<^verbatim>\<open>type Header map[string][]string\<close>. The methods on a table that exists:
\<close>

type_synonym header_table = "string \<rightharpoonup> string list"

definition table_Get :: "header_table \<Rightarrow> string \<Rightarrow> string" where
  "table_Get h key =
     (case h (CanonicalMIMEHeaderKey key) of None \<Rightarrow> '''' | Some [] \<Rightarrow> '''' | Some (v # _) \<Rightarrow> v)"

definition table_Values :: "header_table \<Rightarrow> string \<Rightarrow> string list" where
  "table_Values h key = (case h (CanonicalMIMEHeaderKey key) of None \<Rightarrow> [] | Some vs \<Rightarrow> vs)"

definition table_Set :: "header_table \<Rightarrow> string \<Rightarrow> string \<Rightarrow> header_table" where
  "table_Set h key val = h(CanonicalMIMEHeaderKey key \<mapsto> [val])"

definition table_Add :: "header_table \<Rightarrow> string \<Rightarrow> string \<Rightarrow> header_table" where
  "table_Add h key val =
     h(CanonicalMIMEHeaderKey key \<mapsto> table_Values h key @ [val])"

text \<open>
  The methods on a \<open>Header\<close> value, which may be \<open>nil\<close>: \<open>Get\<close> reads and gives \<open>""\<close>,
  \<open>Set\<close> stores and panics.
\<close>

type_synonym Header = "(string, string list) go_map"

definition Header_Get :: "Header \<Rightarrow> string \<Rightarrow> string" where
  "Header_Get h key = (case h of nil \<Rightarrow> '''' | Map t \<Rightarrow> table_Get t key)"

definition Header_Set :: "Header \<Rightarrow> string \<Rightarrow> string \<Rightarrow> panic + Header" where
  "Header_Set h key val =
     (case h of
        nil \<Rightarrow> Inl assignment_to_nil_map
      | Map t \<Rightarrow> Inr (Map (table_Set t key val)))"

subsection \<open>net/http: requests\<close>

record Request =
  Method :: string
  URL :: string
  Header :: Header
  ReqBody :: "string option"

text \<open>
  \<^verbatim>\<open>func (r *Request) BasicAuth() (username, password string, ok bool)\<close> with
  \<^verbatim>\<open>parseBasicAuth\<close>: the scheme is compared without regard to case, the rest is decoded
  and cut at the first colon; every failure gives \<open>("", "", false)\<close>.
\<close>

definition parseBasicAuth :: "string \<Rightarrow> string \<times> string \<times> bool" where
  "parseBasicAuth auth =
     (let prefix = ''Basic '' in
      if length auth < length prefix \<or> \<not> EqualFold (take (length prefix) auth) prefix
      then ('''', '''', False)
      else
        (case DecodeString (drop (length prefix) auth) of
           None \<Rightarrow> ('''', '''', False)
         | Some cs \<Rightarrow>
             (let (username, password, ok) = Cut cs (CHR '':'') in
              if \<not> ok then ('''', '''', False) else (username, password, True))))"

definition BasicAuth :: "Request \<Rightarrow> string \<times> string \<times> bool" where
  "BasicAuth r =
     (let auth = Header_Get (Header r) ''Authorization'' in
      if auth = '''' then ('''', '''', False) else parseBasicAuth auth)"

text \<open>
  \<^verbatim>\<open>func (r *Request) SetBasicAuth(username, password string) {
      r.Header.Set("Authorization", "Basic "+basicAuth(username, password))
  }\<close>
  where \<^verbatim>\<open>basicAuth\<close> encodes \<open>username + ":" + password\<close>.
\<close>

definition basicAuth :: "string \<Rightarrow> string \<Rightarrow> string" where
  "basicAuth username password = EncodeToString (username @ '':'' @ password)"

definition SetBasicAuth :: "Request \<Rightarrow> string \<Rightarrow> string \<Rightarrow> panic + Request" where
  "SetBasicAuth r username password =
     (case Header_Set (Header r) ''Authorization'' (''Basic '' @ basicAuth username password) of
        Inl p \<Rightarrow> Inl p
      | Inr h \<Rightarrow> Inr (r\<lparr>Header := h\<rparr>))"

subsection \<open>net/http: the response writer\<close>

text \<open>
  What a handler can do to an \<^verbatim>\<open>http.ResponseWriter\<close> and what the package's tests read
  back from the \<^verbatim>\<open>httptest.ResponseRecorder\<close> they pass: the header map, the status
  code of the first \<open>WriteHeader\<close> and the bytes written. \<open>Header()\<close> never gives a \<open>nil\<close> map.
  A \<open>Write\<close> that comes before any \<open>WriteHeader\<close> sends the header with status 200 first; the
  \<open>Content-Type\<close> that the transport then derives from the written bytes is not recorded
  here (no function of the package writes before it has called \<open>WriteHeader\<close>).
\<close>

record ResponseWriter =
  Code :: nat
  HeaderMap :: header_table
  Body :: string
  wroteHeader :: bool

definition NewRecorder :: ResponseWriter where
  "NewRecorder = \<lparr>Code = 200, HeaderMap = Map.empty, Body = '''', wroteHeader = False\<rparr>"

definition WriteHeader :: "ResponseWriter \<Rightarrow> nat \<Rightarrow> ResponseWriter" where
  "WriteHeader w code = (if wroteHeader w then w else w\<lparr>Code := code, wroteHeader := True\<rparr>)"

definition Write :: "ResponseWriter \<Rightarrow> string \<Rightarrow> ResponseWriter" where
  "Write w buf =
     (let w' = (if wroteHeader w then w else WriteHeader w 200) in
      w'\<lparr>Body := Body w' @ buf\<rparr>)"

definition StatusOK :: nat where
  "StatusOK = 200"

definition StatusUnauthorized :: nat where
  "StatusUnauthorized = 401"

text \<open>\<^verbatim>\<open>http.StatusText\<close>: the text of a known status code, \<open>""\<close> for any other.\<close>

definition statusText :: "(nat \<times> string) list" where
  "statusText =
     [(100, ''Continue''), (101, ''Switching Protocols''), (102, ''Processing''),
      (103, ''Early Hints''),
      (200, ''OK''), (201, ''Created''), (202, ''Accepted''),
      (203, ''Non-Authoritative Information''), (204, ''No Content''),
      (205, ''Reset Content''), (206, ''Partial Content''), (207, ''Multi-Status''),
      (208, ''Already Reported''), (226, ''IM Used''),
      (300, ''Multiple Choices''), (301, ''Moved Permanently''), (302, ''Found''),
      (303, ''See Other''), (304, ''Not Modified''), (305, ''Use Proxy''),
      (307, ''Temporary Redirect''), (308, ''Permanent Redirect''),
      (400, ''Bad Request''), (401, ''Unauthorized''), (402, ''Payment Required''),
      (403, ''Forbidden''), (404, ''Not Found''), (405, ''Method Not Allowed''),
      (406, ''Not Acceptable''), (407, ''Proxy Authentication Required''),
      (408, ''Request Timeout''), (409, ''Conflict''), (410, ''Gone''),
      (411, ''Length Required''), (412, ''Precondition Failed''),
      (413, ''Request Entity Too Large''), (414, ''Request URI Too Long''),
      (415, ''Unsupported Media Type''), (416, ''Requested Range Not Satisfiable''),
      (417, ''Expectation Failed''), (418, ''I'' @ [CHR 0x27] @ ''m a teapot''),
      (421, ''Misdirected Request''), (422, ''Unprocessable Entity''), (423, ''Locked''),
      (424, ''Failed Dependency''), (425, ''Too Early''), (426, ''Upgrade Required''),
      (428, ''Precondition Required''), (429, ''Too Many Requests''),
      (431, ''Request Header Fields Too Large''),
      (451, ''Unavailable For Legal Reasons''),
      (500, ''Internal Server Error''), (501, ''Not Implemented''), (502, ''Bad Gateway''),
      (503, ''Service Unavailable''), (504, ''Gateway Timeout''),
      (505, ''HTTP Version Not Supported''), (506, ''Variant Also Negotiates''),
      (507, ''Insufficient Storage''), (508, ''Loop Detected''), (510, ''Not Extended''),
      (511, ''Network Authentication Required'')]"

definition StatusText :: "nat \<Rightarrow> string" where
  "StatusText code = (case map_of statusText code of None \<Rightarrow> '''' | Some t \<Rightarrow> t)"

section \<open>The authenticating handler\<close>

text \<open>
  A handler runs on a response writer and a request, and may change whatever else the
  program holds; that rest of the program's state has type \<open>'s\<close>. A value of the interface
  \<^verbatim>\<open>http.Handler\<close> is either a function converted by \<^verbatim>\<open>http.HandlerFunc\<close> or a
  \<^verbatim>\<open>*handler\<close> of this package:
  \<^verbatim>\<open>type handler struct {
      http.Handler
      c Checker
  }\<close>
\<close>

type_synonym 's HandlerFunc = "ResponseWriter \<Rightarrow> Request \<Rightarrow> 's \<Rightarrow> ResponseWriter \<times> 's"

datatype 's http_Handler =
    http_HandlerFunc "'s HandlerFunc"
  | handler (handler_Handler: "'s http_Handler") (handler_c: Checker)

text \<open>
  \<^verbatim>\<open>func NewHandler(c Checker, h http.Handler) http.Handler {
      return &handler{Handler: h, c: c}
  }\<close>
\<close>

definition NewHandler :: "Checker \<Rightarrow> 's http_Handler \<Rightarrow> 's http_Handler" where
  "NewHandler c h = handler h c"

text \<open>
  \<^verbatim>\<open>func (f HandlerFunc) ServeHTTP(w, r) { f(w, r) }\<close> of net/http, and
  \<^verbatim>\<open>func (h *handler) ServeHTTP(w http.ResponseWriter, r *http.Request) {
      username, password, _ := r.BasicAuth()
      if !h.c.Check(username, password) {
          w.Header().Add("WWW-Authenticate", "Basic")
          w.WriteHeader(http.StatusUnauthorized)
          w.Write([]byte(http.StatusText(http.StatusUnauthorized)))
          return
      }
      h.Handler.ServeHTTP(w, r)
  }\<close>
\<close>

fun ServeHTTP :: "'s http_Handler \<Rightarrow> 's HandlerFunc" where
  "ServeHTTP (http_HandlerFunc f) w r \<sigma> = f w r \<sigma>"
| "ServeHTTP (handler h c) w r \<sigma> =
     (let (username, password, _) = BasicAuth r in
      if \<not> c username password then
        (let w1 = w\<lparr>HeaderMap := table_Add (HeaderMap w) ''WWW-Authenticate'' ''Basic''\<rparr>;
             w2 = WriteHeader w1 StatusUnauthorized;
             w3 = Write w2 (StatusText StatusUnauthorized)
         in (w3, \<sigma>))
      else ServeHTTP h w r \<sigma>)"

text \<open>
  \<^verbatim>\<open>func HandlerFunc(c Checker, f http.HandlerFunc) http.HandlerFunc {
      h := NewHandler(c, f)
      return http.HandlerFunc(h.ServeHTTP)
  }\<close>
\<close>

definition HandlerFunc :: "Checker \<Rightarrow> 's HandlerFunc \<Rightarrow> 's HandlerFunc" where
  "HandlerFunc c f = (let h = NewHandler c (http_HandlerFunc f) in ServeHTTP h)"

text \<open>
  Registration. \<^verbatim>\<open>(*http.ServeMux).Handle\<close> is the router's own: it takes the router's
  state \<open>'m\<close>, a pattern and a handler, and gives the new state or panics. The functions
  of the package are given that method as \<open>http_Handle\<close>; \<^verbatim>\<open>http.HandleFunc\<close> and
  \<^verbatim>\<open>http.Handle\<close> are the same method on \<^verbatim>\<open>http.DefaultServeMux\<close>, the function form
  after the conversion \<^verbatim>\<open>http.HandlerFunc(f)\<close>.
\<close>

type_synonym ('m, 's) mux_Handle = "'m \<Rightarrow> string \<Rightarrow> 's http_Handler \<Rightarrow> panic + 'm"

text \<open>
  \<^verbatim>\<open>func Handle(c Checker, pattern string, h http.Handler) {
      http.Handle(pattern, NewHandler(c, h))
  }
  func HandleFunc(c Checker, pattern string, h http.HandlerFunc) {
      http.HandleFunc(pattern, HandlerFunc(c, h))
  }\<close>
\<close>

definition Handle ::
  "('m, 's) mux_Handle \<Rightarrow> Checker \<Rightarrow> string \<Rightarrow> 's http_Handler \<Rightarrow> 'm \<Rightarrow> panic + 'm" where
  "Handle http_Handle c pattern h DefaultServeMux =
     http_Handle DefaultServeMux pattern (NewHandler c h)"

definition HandleFunc ::
  "('m, 's) mux_Handle \<Rightarrow> Checker \<Rightarrow> string \<Rightarrow> 's HandlerFunc \<Rightarrow> 'm \<Rightarrow> panic + 'm" where
  "HandleFunc http_Handle c pattern h DefaultServeMux =
     http_Handle DefaultServeMux pattern (http_HandlerFunc (HandlerFunc c h))"

text \<open>
  \<^verbatim>\<open>type ServeMux struct {
      Checker
      *http.ServeMux
  }
  func NewServeMux(c Checker, m *http.ServeMux) ServeMux { return ServeMux{c, m} }
  func (m ServeMux) Handle(pattern string, h http.Handler) {
      m.ServeMux.Handle(pattern, NewHandler(m.Checker, h))
  }
  func (m ServeMux) HandleFunc(pattern string, h http.HandlerFunc) {
      m.ServeMux.Handle(pattern, HandlerFunc(m.Checker, h))
  }\<close>
\<close>

record 'm ServeMux =
  ServeMux_Checker :: Checker
  ServeMux_ServeMux :: 'm

definition NewServeMux :: "Checker \<Rightarrow> 'm \<Rightarrow> 'm ServeMux" where
  "NewServeMux c mux = \<lparr>ServeMux_Checker = c, ServeMux_ServeMux = mux\<rparr>"

definition ServeMux_Handle ::
  "('m, 's) mux_Handle \<Rightarrow> 'm ServeMux \<Rightarrow> string \<Rightarrow> 's http_Handler \<Rightarrow> panic + 'm" where
  "ServeMux_Handle http_Handle mx pattern h =
     http_Handle (ServeMux_ServeMux mx) pattern (NewHandler (ServeMux_Checker mx) h)"

definition ServeMux_HandleFunc ::
  "('m, 's) mux_Handle \<Rightarrow> 'm ServeMux \<Rightarrow> string \<Rightarrow> 's HandlerFunc \<Rightarrow> panic + 'm" where
  "ServeMux_HandleFunc http_Handle mx pattern h =
     http_Handle (ServeMux_ServeMux mx) pattern
       (http_HandlerFunc (HandlerFunc (ServeMux_Checker mx) h))"

text \<open>The downstream handler of the package's tests.\<close>

definition handlerFuncOK :: "'s HandlerFunc" where
  "handlerFuncOK w r \<sigma> =
     (let w1 = WriteHeader w StatusOK;
          w2 = Write w1 (StatusText StatusOK)
      in (w2, \<sigma>))"

section \<open>The signing client\<close>

subsection \<open>net/http: clients\<close>

record Response =
  StatusCode :: nat
  Response_Header :: Header
  Response_Body :: string

text \<open>
  \<^verbatim>\<open>(*http.Client).Do\<close> of a client that exists: it takes the request and the state of
  the network \<open>'n\<close>, and gives the pair \<^verbatim>\<open>(*Response, error)\<close> and the new state of the
  network. A \<^verbatim>\<open>*http.Client\<close> may be \<open>nil\<close>; \<open>Do\<close> on the \<open>nil\<close> client panics.
\<close>

type_synonym 'n http_Client = "Request \<Rightarrow> 'n \<Rightarrow> (Response option \<times> error option) \<times> 'n"

type_synonym 'n result = "panic + ((Response option \<times> error option) \<times> 'n)"

definition http_Client_Do :: "'n http_Client option \<Rightarrow> Request \<Rightarrow> 'n \<Rightarrow> 'n result" where
  "http_Client_Do client req net =
     (case client of
        None \<Rightarrow> Inl nil_pointer_dereference
      | Some cl \<Rightarrow> Inr (cl req net))"

text \<open>
  What the package takes from the standard library without looking inside:
  \<^verbatim>\<open>url.Parse\<close> (used by \<^verbatim>\<open>http.NewRequest\<close>), \<^verbatim>\<open>http.DefaultClient\<close> and
  \<^verbatim>\<open>url.Values.Encode\<close>.
\<close>

record 'n net_http =
  url_Parse :: "string \<Rightarrow> error + string"
  DefaultClient :: "'n http_Client"
  Values_Encode :: "(string, string list) go_map \<Rightarrow> string"

text \<open>
  \<^verbatim>\<open>http.NewRequest(method, url, body)\<close>: an empty method means \<open>GET\<close>, the method must be
  a token, the URL must parse; the new request has an empty header map, which is not \<open>nil\<close>.
\<close>

definition validMethod :: "string \<Rightarrow> bool" where
  "validMethod method = (0 < length method \<and> list_all validHeaderFieldByte method)"

definition http_NewRequest ::
  "'n net_http \<Rightarrow> string \<Rightarrow> string \<Rightarrow> string option \<Rightarrow> error + Request" where
  "http_NewRequest env method url body =
     (let method = (if method = '''' then ''GET'' else method) in
      if \<not> validMethod method then Inl (errorString (''net/http: invalid method '' @ method))
      else
        (case url_Parse env url of
           Inl err \<Rightarrow> Inl err
         | Inr u \<Rightarrow> Inr \<lparr>Method = method, URL = u, Header = Map Map.empty, ReqBody = body\<rparr>))"

subsection \<open>Signer\<close>

text \<open>
  \<^verbatim>\<open>type Signer interface { Sign(r *http.Request) error }\<close>: \<open>Sign\<close> works on the request
  it is given, so a value of the interface is a function from the request to the request
  as \<open>Sign\<close> leaves it and the error it returns (\<open>None\<close> for \<open>nil\<close>), unless it panics.
\<close>

type_synonym Signer = "Request \<Rightarrow> panic + (Request \<times> error option)"

text \<open>
  \<^verbatim>\<open>type BasicAuthSigner struct { User, Pass string }
  func (b BasicAuthSigner) Sign(r *http.Request) error {
      r.SetBasicAuth(b.User, b.Pass)
      return nil
  }\<close>
\<close>

record BasicAuthSigner =
  User :: string
  Pass :: string

definition BasicAuthSigner_Sign :: "BasicAuthSigner \<Rightarrow> Signer" where
  "BasicAuthSigner_Sign b r =
     (case SetBasicAuth r (User b) (Pass b) of
        Inl p \<Rightarrow> Inl p
      | Inr r' \<Rightarrow> Inr (r', None))"

subsection \<open>Client\<close>

text \<open>
  \<^verbatim>\<open>type Client struct {
      *http.Client
      Signer
  }
  func NewClient(c *http.Client, s Signer) *Client { return &Client{Client: c, Signer: s} }\<close>
\<close>

record 'n Client =
  Client_Client :: "'n http_Client option"
  Client_Signer :: Signer

definition NewClient :: "'n http_Client option \<Rightarrow> Signer \<Rightarrow> 'n Client" where
  "NewClient c s = \<lparr>Client_Client = c, Client_Signer = s\<rparr>"

text \<open>
  \<^verbatim>\<open>func (c *Client) Do(req *http.Request) (*http.Response, error) {
      if err := c.Sign(req); err != nil {
          return nil, err
      }
      return c.Client.Do(req)
  }\<close>
\<close>

definition Client_Do :: "'n Client \<Rightarrow> Request \<Rightarrow> 'n \<Rightarrow> 'n result" where
  "Client_Do c req net =
     (case Client_Signer c req of
        Inl p \<Rightarrow> Inl p
      | Inr (req', Some err) \<Rightarrow> Inr ((None, Some err), net)
      | Inr (req', None) \<Rightarrow> http_Client_Do (Client_Client c) req' net)"

text \<open>
  \<^verbatim>\<open>func (c *Client) Get(url string) (*http.Response, error) {
      req, err := http.NewRequest("GET", url, nil)
      if err != nil {
          return nil, err
      }
      return c.Do(req)
  }\<close>
  and the same with \<open>"HEAD"\<close> for \<open>Head\<close>.
\<close>

definition Client_Get :: "'n net_http \<Rightarrow> 'n Client \<Rightarrow> string \<Rightarrow> 'n \<Rightarrow> 'n result" where
  "Client_Get env c url net =
     (case http_NewRequest env ''GET'' url None of
        Inl err \<Rightarrow> Inr ((None, Some err), net)
      | Inr req \<Rightarrow> Client_Do c req net)"

definition Client_Head :: "'n net_http \<Rightarrow> 'n Client \<Rightarrow> string \<Rightarrow> 'n \<Rightarrow> 'n result" where
  "Client_Head env c url net =
     (case http_NewRequest env ''HEAD'' url None of
        Inl err \<Rightarrow> Inr ((None, Some err), net)
      | Inr req \<Rightarrow> Client_Do c req net)"

text \<open>
  \<^verbatim>\<open>func (c *Client) Post(url string, bodyType string, body io.Reader) (*http.Response, error) {
      req, err := http.NewRequest("POST", url, body)
      if err != nil {
          return nil, err
      }
      req.Header.Set("Content-Type", bodyType)
      return c.Do(req)
  }
  func (c *Client) PostForm(url string, data url.Values) (*http.Response, error) {
      return c.Post(url, "application/x-www-form-urlencoded", strings.NewReader(data.Encode()))
  }\<close>
\<close>

definition Client_Post ::
  "'n net_http \<Rightarrow> 'n Client \<Rightarrow> string \<Rightarrow> string \<Rightarrow> string option \<Rightarrow> 'n \<Rightarrow> 'n result" where
  "Client_Post env c url bodyType body net =
     (case http_NewRequest env ''POST'' url body of
        Inl err \<Rightarrow> Inr ((None, Some err), net)
      | Inr req \<Rightarrow>
          (case Header_Set (Header req) ''Content-Type'' bodyType of
             Inl p \<Rightarrow> Inl p
           | Inr h \<Rightarrow> Client_Do c (req\<lparr>Header := h\<rparr>) net))"

definition Client_PostForm ::
  "'n net_http \<Rightarrow> 'n Client \<Rightarrow> string \<Rightarrow> (string, string list) go_map \<Rightarrow> 'n \<Rightarrow> 'n result" where
  "Client_PostForm env c url data net =
     Client_Post env c url ''application/x-www-form-urlencoded''
       (Some (Values_Encode env data)) net"

subsection \<open>The functions of the package\<close>

text \<open>
  \<^verbatim>\<open>func Do(s Signer, client *http.Client, req *http.Request) (*http.Response, error) {
      if err := s.Sign(req); err != nil {
          return nil, err
      }
      if client == nil {
          client = http.DefaultClient
      }
      return client.Do(req)
  }\<close>
\<close>

definition Do ::
  "'n net_http \<Rightarrow> Signer \<Rightarrow> 'n http_Client option \<Rightarrow> Request \<Rightarrow> 'n \<Rightarrow> 'n result" where
  "Do env s client req net =
     (case s req of
        Inl p \<Rightarrow> Inl p
      | Inr (req', Some err) \<Rightarrow> Inr ((None, Some err), net)
      | Inr (req', None) \<Rightarrow>
          (let client = (if client = None then Some (DefaultClient env) else client) in
           http_Client_Do client req' net))"

definition Get ::
  "'n net_http \<Rightarrow> Signer \<Rightarrow> 'n http_Client option \<Rightarrow> string \<Rightarrow> 'n \<Rightarrow> 'n result" where
  "Get env s client url net =
     (case http_NewRequest env ''GET'' url None of
        Inl err \<Rightarrow> Inr ((None, Some err), net)
      | Inr req \<Rightarrow> Do env s client req net)"

definition Head ::
  "'n net_http \<Rightarrow> Signer \<Rightarrow> 'n http_Client option \<Rightarrow> string \<Rightarrow> 'n \<Rightarrow> 'n result" where
  "Head env s client url net =
     (case http_NewRequest env ''HEAD'' url None of
        Inl err \<Rightarrow> Inr ((None, Some err), net)
      | Inr req \<Rightarrow> Do env s client req net)"

definition Post ::
  "'n net_http \<Rightarrow> Signer \<Rightarrow> 'n http_Client option \<Rightarrow> string \<Rightarrow> string \<Rightarrow> string option \<Rightarrow>
   'n \<Rightarrow> 'n result" where
  "Post env s client url bodyType body net =
     (case http_NewRequest env ''POST'' url body of
        Inl err \<Rightarrow> Inr ((None, Some err), net)
      | Inr req \<Rightarrow>
          (case Header_Set (Header req) ''Content-Type'' bodyType of
             Inl p \<Rightarrow> Inl p
           | Inr h \<Rightarrow> Do env s client (req\<lparr>Header := h\<rparr>) net))"

definition PostForm ::
  "'n net_http \<Rightarrow> Signer \<Rightarrow> 'n http_Client option \<Rightarrow> string \<Rightarrow> (string, string list) go_map \<Rightarrow>
   'n \<Rightarrow> 'n result" where
  "PostForm env s client url data net =
     Post env s client url ''application/x-www-form-urlencoded''
       (Some (Values_Encode env data)) net"

section \<open>What the specification says of the handler\<close>

text \<open>
  The rejection of the specification, on a response writer \<open>w\<close>: status 401 (if the
  header has not been sent before), one more value \<open>Basic\<close> for the header
  \<open>WWW-Authenticate\<close>, whose canonical key is \<open>Www-Authenticate\<close>, and the text
  \<open>Unauthorized\<close> after what the body already holds; nothing else changes.
\<close>

definition unauthorized :: "ResponseWriter \<Rightarrow> ResponseWriter" where
  "unauthorized w =
     w\<lparr>Code := (if wroteHeader w then Code w else 401),
       HeaderMap := (HeaderMap w)(''Www-Authenticate'' \<mapsto>
         (case HeaderMap w ''Www-Authenticate'' of None \<Rightarrow> [] | Some vs \<Rightarrow> vs) @ [''Basic'']),
       Body := Body w @ ''Unauthorized'',
       wroteHeader := True\<rparr>"

text \<open>
  The requests that the specification calls "no credentials supplied": the header
  \<open>Authorization\<close> is absent (or empty), or it does not start with the scheme \<open>Basic\<close> and a
  space, or what follows the scheme does not decode, or what it decodes to has no colon.
\<close>

definition no_credentials :: "Request \<Rightarrow> bool" where
  "no_credentials r =
     (let auth = Header_Get (Header r) ''Authorization'' in
      auth = '''' \<or>
      length auth < 6 \<or>
      \<not> EqualFold (take 6 auth) ''Basic '' \<or>
      (case DecodeString (drop 6 auth) of
         None \<Rightarrow> True
       | Some cs \<Rightarrow> CHR '':'' \<notin> set cs))"

text \<open>A request as \<^verbatim>\<open>http.NewRequest("GET", "/", nil)\<close> makes it, and the same with a header.\<close>

definition plain_request :: Request where
  "plain_request = \<lparr>Method = ''GET'', URL = ''/'', Header = Map Map.empty, ReqBody = None\<rparr>"

definition request_with :: "string \<Rightarrow> Request" where
  "request_with auth = plain_request\<lparr>Header := Map (Map.empty(''Authorization'' \<mapsto> [auth]))\<rparr>"

text \<open>
  A downstream handler that leaves a trace: it answers 200 \<open>OK\<close> as \<open>handlerFuncOK\<close> does
  and sets a flag, the rest of the program's state being that flag.
\<close>

definition flagging_handler :: "bool HandlerFunc" where
  "flagging_handler w r flag = (fst (handlerFuncOK w r flag), True)"

section \<open>Test doubles for the client side\<close>

text \<open>
  A signer that fails, as a signer backed by a token service may; a client that answers
  200 with the \<open>Authorization\<close> header it was sent as the body, the state of the network
  being the number of requests dispatched; and an environment whose \<open>url.Parse\<close> accepts
  every string and whose default client is that client.
\<close>

definition failing_signer :: Signer where
  "failing_signer r = Inr (r, Some (errorString ''no token''))"

definition echo_client :: "nat http_Client" where
  "echo_client req n =
     ((Some \<lparr>StatusCode = 200, Response_Header = Map Map.empty,
              Response_Body = Header_Get (Header req) ''Authorization''\<rparr>, None), Suc n)"

definition test_env :: "nat net_http" where
  "test_env = \<lparr>url_Parse = Inr, DefaultClient = echo_client, Values_Encode = (\<lambda>data. '''')\<rparr>"

definition alice :: BasicAuthSigner where
  "alice = \<lparr>User = ''alice'', Pass = ''shhhh''\<rparr>"

section \<open>Evaluation of the library functions on literals\<close>

lemma char_of_nat_eval:
  "char_of (n :: nat) =
     Char (odd n) (odd (n div 2)) (odd (n div 4)) (odd (n div 8))
       (odd (n div 16)) (odd (n div 32)) (odd (n div 64)) (odd (n div 128))"
  by (simp add: char_of_def bit_iff_odd drop_bit_eq_div)

lemmas bytes_eval =
  isUpper_def isLower_def isDigit_def upper_def lower_def byte_def char_of_nat_eval Let_def

lemmas header_eval =
  CanonicalMIMEHeaderKey_def validHeaderFieldByte_def table_Get_def table_Values_def
  table_Set_def table_Add_def Header_Get_def Header_Set_def

lemmas base64_eval =
  DecodeString_def decodeMap_def encodeStd_def

lemma canonical_WWW_Authenticate:
  "CanonicalMIMEHeaderKey ''WWW-Authenticate'' = ''Www-Authenticate''"
  by (simp add: header_eval bytes_eval)

lemma canonical_Authorization:
  "CanonicalMIMEHeaderKey ''Authorization'' = ''Authorization''"
  by (simp add: header_eval bytes_eval)

lemma canonical_Content_Type:
  "CanonicalMIMEHeaderKey ''Content-Type'' = ''Content-Type''"
  by (simp add: header_eval bytes_eval)

lemma StatusText_Unauthorized: "StatusText StatusUnauthorized = ''Unauthorized''"
  by (simp add: StatusText_def StatusUnauthorized_def statusText_def)

lemma StatusText_OK: "StatusText StatusOK = ''OK''"
  by (simp add: StatusText_def StatusOK_def statusText_def)

section \<open>Properties of the checkers\<close>

lemma index_ok_nil: "index_ok nil k = ('''', False)"
  by (simp add: index_ok_def)

lemma index_ok_empty: "index_ok (Map Map.empty) k = ('''', False)"
  by (simp add: index_ok_def)

text \<open>
  C3. For every map and every pair of strings, the checker built by \<open>Creds\<close> accepts the
  pair exactly when the map holds the user name as a key whose value is the password,
  compared as they are (no case folding, no trimming); the empty user name and the empty
  password are accepted when the map holds them.
\<close>

theorem creds_Check_iff_contains:
  "Creds mp u p = contains_pair mp u p \<and>
   Creds (Map (Map.empty('''' \<mapsto> ''''))) '''' '''' = True \<and>
   Creds (Map (Map.empty(''bob'' \<mapsto> ''''))) ''bob'' '''' = True \<and>
   Creds (Map (Map.empty('''' \<mapsto> ''secret''))) '''' ''secret'' = True \<and>
   Creds (Map (Map.empty(''alice'' \<mapsto> ''shhhh''))) ''Alice'' ''shhhh'' = False \<and>
   Creds (Map (Map.empty(''alice'' \<mapsto> ''shhhh''))) ''alice'' ''shhhh '' = False"
  by (auto simp: Creds_def creds_Check_def index_ok_def contains_pair_def
      split: go_map.splits option.splits)

text \<open>
  C4. A checker built from a \<open>nil\<close> map rejects every pair, as the checker built from an
  empty map does. \<open>Check\<close> has no failing branch: reading a \<open>nil\<close> map is a defined
  operation of Go. The same holds for the earlier revision, which guards \<open>nil\<close> explicitly.
\<close>

theorem creds_Check_nil:
  "Creds nil u p = False \<and>
   Creds nil u p = Creds (Map Map.empty) u p \<and>
   Creds_Check nil u p = False \<and>
   Creds_Check nil u p = Creds_Check (Map Map.empty) u p"
  by (simp add: Creds_def creds_Check_def Creds_Check_def index_ok_nil index_ok_empty)

text \<open>C9. \<open>None.Check\<close> returns true for every pair of strings, the empty ones included.\<close>

theorem None_Check_true:
  "None_Check n u p = True \<and> None_Check None_struct '''' '''' = True"
  by (simp add: None_Check_def)

section \<open>Properties of the authenticating handler\<close>

lemma BasicAuth_plain_request: "BasicAuth plain_request = ('''', '''', False)"
  by (simp add: BasicAuth_def plain_request_def Header_Get_def table_Get_def)

lemma reject_eq_unauthorized:
  "Write (WriteHeader (w\<lparr>HeaderMap := table_Add (HeaderMap w) ''WWW-Authenticate'' ''Basic''\<rparr>)
      StatusUnauthorized) (StatusText StatusUnauthorized) = unauthorized w"
  unfolding StatusText_Unauthorized
  by (cases "wroteHeader w")
    (simp_all add: Write_def WriteHeader_def unauthorized_def table_Add_def table_Values_def
      canonical_WWW_Authenticate StatusUnauthorized_def)

lemma ServeHTTP_handler:
  "ServeHTTP (handler h c) w r \<sigma> =
     (if c (fst (BasicAuth r)) (fst (snd (BasicAuth r))) then ServeHTTP h w r \<sigma>
      else (unauthorized w, \<sigma>))"
  by (simp add: reject_eq_unauthorized split: prod.splits)

lemma unauthorized_NewRecorder:
  "unauthorized NewRecorder =
     \<lparr>Code = 401, HeaderMap = Map.empty(''Www-Authenticate'' \<mapsto> [''Basic'']),
      Body = ''Unauthorized'', wroteHeader = True\<rparr>"
  by (simp add: unauthorized_def NewRecorder_def)

lemma handlerFuncOK_NewRecorder:
  "handlerFuncOK NewRecorder r \<sigma> =
     (\<lparr>Code = 200, HeaderMap = Map.empty, Body = ''OK'', wroteHeader = True\<rparr>, \<sigma>)"
  unfolding handlerFuncOK_def StatusText_OK
  by (simp add: NewRecorder_def Write_def WriteHeader_def StatusOK_def)

text \<open>
  C1. When the checker rejects the credentials that \<open>BasicAuth\<close> reads from the request,
  \<open>ServeHTTP\<close> of the wrapped handler returns the writer with the rejection on it and the
  rest of the program's state as it was, whatever the downstream handler is: the
  downstream handler has not run. On a writer whose header has not been sent the status is
  401; on a new recorder the result is status 401, the one header
  \<open>WWW-Authenticate: Basic\<close>, and the body \<open>Unauthorized\<close>.
\<close>

theorem ServeHTTP_rejects:
  assumes "BasicAuth r = (username, password, ok)" and "\<not> c username password"
  shows "ServeHTTP (NewHandler c h) w r \<sigma> = (unauthorized w, \<sigma>) \<and>
         (\<not> wroteHeader w \<longrightarrow> Code (unauthorized w) = 401) \<and>
         StatusText 401 = ''Unauthorized'' \<and>
         Body (unauthorized w) = Body w @ ''Unauthorized'' \<and>
         ''Basic'' \<in> set (table_Values (HeaderMap (unauthorized w)) ''WWW-Authenticate'') \<and>
         ServeHTTP (NewHandler c h) NewRecorder r \<sigma> =
           (\<lparr>Code = 401, HeaderMap = Map.empty(''Www-Authenticate'' \<mapsto> [''Basic'']),
             Body = ''Unauthorized'', wroteHeader = True\<rparr>, \<sigma>) \<and>
         table_Get (HeaderMap (fst (ServeHTTP (NewHandler c h) NewRecorder r \<sigma>)))
           ''WWW-Authenticate'' = ''Basic''"
proof -
  have run: "ServeHTTP (NewHandler c h) w' r \<sigma> = (unauthorized w', \<sigma>)" for w'
    using assms by (simp add: NewHandler_def ServeHTTP_handler del: ServeHTTP.simps(2))
  have code: "\<not> wroteHeader w \<longrightarrow> Code (unauthorized w) = 401"
    by (simp add: unauthorized_def)
  have stext: "StatusText 401 = ''Unauthorized''"
    by (simp add: StatusText_def statusText_def)
  have body: "Body (unauthorized w) = Body w @ ''Unauthorized''"
    by (simp add: unauthorized_def)
  have hdr: "''Basic'' \<in> set (table_Values (HeaderMap (unauthorized w)) ''WWW-Authenticate'')"
    by (simp add: unauthorized_def table_Values_def canonical_WWW_Authenticate)
  have get: "table_Get (HeaderMap (unauthorized NewRecorder)) ''WWW-Authenticate'' = ''Basic''"
    by (simp add: unauthorized_NewRecorder table_Get_def canonical_WWW_Authenticate)
  from run [of w] run [of NewRecorder] code stext body hdr get show ?thesis
    by (simp add: unauthorized_NewRecorder)
qed

theorem ServeHTTP_rejects_witness:
  "BasicAuth plain_request = ('''', '''', False) \<and>
   \<not> fixedChecker_Check False '''' '''' \<and>
   ServeHTTP (NewHandler (fixedChecker_Check False) (http_HandlerFunc flagging_handler))
     NewRecorder plain_request False =
     (\<lparr>Code = 401, HeaderMap = Map.empty(''Www-Authenticate'' \<mapsto> [''Basic'']),
       Body = ''Unauthorized'', wroteHeader = True\<rparr>, False) \<and>
   ServeHTTP (http_HandlerFunc flagging_handler) NewRecorder plain_request False =
     (\<lparr>Code = 200, HeaderMap = Map.empty, Body = ''OK'', wroteHeader = True\<rparr>, True)"
proof -
  have a: "BasicAuth plain_request = ('''', '''', False)"
    by (rule BasicAuth_plain_request)
  have b: "\<not> fixedChecker_Check False '''' ''''"
    by (simp add: fixedChecker_Check_def)
  show ?thesis
    using a b ServeHTTP_rejects [of plain_request "''''" "''''" False "fixedChecker_Check False"
        "http_HandlerFunc flagging_handler" NewRecorder False]
    by (simp add: flagging_handler_def handlerFuncOK_NewRecorder unauthorized_NewRecorder)
qed

text \<open>
  C2. When the checker accepts the credentials, \<open>ServeHTTP\<close> of the wrapped handler is the
  downstream handler's \<open>ServeHTTP\<close> on the same writer, the same request and the same
  state: the wrapper changes nothing itself, so the header map of the result is the
  downstream handler's.
\<close>

theorem ServeHTTP_forwards:
  assumes "BasicAuth r = (username, password, ok)" and "c username password"
  shows "ServeHTTP (NewHandler c h) w r \<sigma> = ServeHTTP h w r \<sigma>"
  using assms by (simp add: NewHandler_def ServeHTTP_handler del: ServeHTTP.simps(2))

theorem ServeHTTP_forwards_witness:
  "BasicAuth plain_request = ('''', '''', False) \<and>
   fixedChecker_Check True '''' '''' \<and>
   ServeHTTP (NewHandler (fixedChecker_Check True) (http_HandlerFunc flagging_handler))
     NewRecorder plain_request False =
     (\<lparr>Code = 200, HeaderMap = Map.empty, Body = ''OK'', wroteHeader = True\<rparr>, True) \<and>
   table_Get (HeaderMap (fst (ServeHTTP
       (NewHandler (fixedChecker_Check True) (http_HandlerFunc flagging_handler))
       NewRecorder plain_request False))) ''WWW-Authenticate'' = ''''"
proof -
  have a: "BasicAuth plain_request = ('''', '''', False)"
    by (rule BasicAuth_plain_request)
  have b: "fixedChecker_Check True '''' ''''"
    by (simp add: fixedChecker_Check_def)
  show ?thesis
    using a b ServeHTTP_forwards [of plain_request "''''" "''''" False "fixedChecker_Check True"
        "http_HandlerFunc flagging_handler" NewRecorder False]
    by (simp add: flagging_handler_def handlerFuncOK_NewRecorder table_Get_def)
qed

lemma parseBasicAuth_cases:
  "parseBasicAuth auth =
     (if length auth < 6 \<or> \<not> EqualFold (take 6 auth) ''Basic '' then ('''', '''', False)
      else
        (case DecodeString (drop 6 auth) of
           None \<Rightarrow> ('''', '''', False)
         | Some cs \<Rightarrow>
             if CHR '':'' \<in> set cs
             then (takeWhile (\<lambda>ch. ch \<noteq> CHR '':'') cs,
                   tl (dropWhile (\<lambda>ch. ch \<noteq> CHR '':'') cs), True)
             else ('''', '''', False)))"
proof -
  have len: "length ''Basic '' = 6"
    by simp
  show ?thesis
    unfolding parseBasicAuth_def Let_def len
    by (simp add: Cut_def split: option.splits)
qed

lemma BasicAuth_no_credentials:
  assumes "no_credentials r"
  shows "BasicAuth r = ('''', '''', False)"
proof (cases "Header_Get (Header r) ''Authorization'' = ''''")
  case True
  then show ?thesis by (simp add: BasicAuth_def)
next
  case False
  with assms have
    "length (Header_Get (Header r) ''Authorization'') < 6 \<or>
     \<not> EqualFold (take 6 (Header_Get (Header r) ''Authorization'')) ''Basic '' \<or>
     (case DecodeString (drop 6 (Header_Get (Header r) ''Authorization'')) of
        None \<Rightarrow> True
      | Some cs \<Rightarrow> CHR '':'' \<notin> set cs)"
    by (simp add: no_credentials_def Let_def)
  then have "parseBasicAuth (Header_Get (Header r) ''Authorization'') = ('''', '''', False)"
    by (auto simp: parseBasicAuth_cases split: option.splits)
  with False show ?thesis by (simp add: BasicAuth_def)
qed

lemma BasicAuth_credentials:
  assumes "\<not> no_credentials r"
  shows "snd (snd (BasicAuth r))"
  using assms
  by (auto simp: no_credentials_def BasicAuth_def parseBasicAuth_cases Let_def
      split: option.splits)

lemma DecodeString_alice: "DecodeString ''YWxpY2U='' = Some ''alice''"
  by (simp add: base64_eval bytes_eval)

lemma DecodeString_alice_shhhh: "DecodeString ''YWxpY2U6c2hoaGg='' = Some ''alice:shhhh''"
  by (simp add: base64_eval bytes_eval)

lemma DecodeString_garbage: "DecodeString ''!!!!'' = None"
  by (simp add: base64_eval)

lemma Authorization_request_with:
  "Header_Get (Header (request_with auth)) ''Authorization'' = auth"
  by (simp add: request_with_def Header_Get_def table_Get_def canonical_Authorization)

lemma no_credentials_examples:
  "no_credentials plain_request \<and>
   no_credentials (plain_request\<lparr>Header := nil\<rparr>) \<and>
   no_credentials (request_with ''Bearer YWxpY2U6c2hoaGg='') \<and>
   no_credentials (request_with ''Basic'') \<and>
   no_credentials (request_with ''Basic !!!!'') \<and>
   no_credentials (request_with ''Basic YWxpY2U='') \<and>
   \<not> no_credentials (request_with ''Basic YWxpY2U6c2hoaGg='') \<and>
   \<not> no_credentials (request_with ''basic YWxpY2U6c2hoaGg='')"
  by (simp add: no_credentials_def Authorization_request_with DecodeString_alice
      DecodeString_alice_shhhh DecodeString_garbage EqualFold_def bytes_eval)
    (simp add: plain_request_def Header_Get_def table_Get_def)

lemma BasicAuth_alice:
  "BasicAuth (request_with ''Basic YWxpY2U6c2hoaGg='') = (''alice'', ''shhhh'', True)"
  by (simp add: BasicAuth_def Authorization_request_with parseBasicAuth_cases
      DecodeString_alice_shhhh EqualFold_def bytes_eval)

text \<open>
  C5. On a request whose \<open>Authorization\<close> header is absent, names another scheme, does
  not decode or decodes to a text without a colon, \<open>BasicAuth\<close> gives the empty user
  name and the empty password, and \<open>ServeHTTP\<close> does what it does on every request: it
  asks the checker, here about the empty pair, forwards if the checker accepts and
  rejects with the 401 response if not. There is no third outcome.
\<close>

theorem ServeHTTP_no_credentials:
  assumes "no_credentials r"
  shows "BasicAuth r = ('''', '''', False) \<and>
         ServeHTTP (NewHandler c h) w r \<sigma> =
           (if c '''' '''' then ServeHTTP h w r \<sigma> else (unauthorized w, \<sigma>))"
  using BasicAuth_no_credentials [OF assms]
  by (simp add: NewHandler_def ServeHTTP_handler del: ServeHTTP.simps(2))

theorem ServeHTTP_no_credentials_witness:
  "no_credentials plain_request \<and>
   no_credentials (request_with ''Bearer YWxpY2U6c2hoaGg='') \<and>
   no_credentials (request_with ''Basic !!!!'') \<and>
   no_credentials (request_with ''Basic YWxpY2U='') \<and>
   ServeHTTP (NewHandler (Creds (Map (Map.empty(''alice'' \<mapsto> ''shhhh''))))
       (http_HandlerFunc flagging_handler)) NewRecorder plain_request False =
     (unauthorized NewRecorder, False) \<and>
   ServeHTTP (NewHandler (Creds (Map (Map.empty(''alice'' \<mapsto> ''shhhh''))))
       (http_HandlerFunc flagging_handler)) NewRecorder
       (request_with ''Bearer YWxpY2U6c2hoaGg='') False =
     (unauthorized NewRecorder, False) \<and>
   ServeHTTP (NewHandler (Creds (Map (Map.empty(''alice'' \<mapsto> ''shhhh''))))
       (http_HandlerFunc flagging_handler)) NewRecorder (request_with ''Basic !!!!'') False =
     (unauthorized NewRecorder, False) \<and>
   ServeHTTP (NewHandler (Creds (Map (Map.empty(''alice'' \<mapsto> ''shhhh''))))
       (http_HandlerFunc flagging_handler)) NewRecorder (request_with ''Basic YWxpY2U='') False =
     (unauthorized NewRecorder, False) \<and>
   ServeHTTP (NewHandler (None_Check None_struct) (http_HandlerFunc flagging_handler))
       NewRecorder (request_with ''Basic !!!!'') False =
     (\<lparr>Code = 200, HeaderMap = Map.empty, Body = ''OK'', wroteHeader = True\<rparr>, True)"
proof -
  let ?c = "Creds (Map (Map.empty(''alice'' \<mapsto> ''shhhh'')))"
  let ?h = "http_HandlerFunc flagging_handler"
  have rej: "\<not> ?c '''' ''''"
    by (simp add: Creds_def creds_Check_def index_ok_def)
  have n1: "no_credentials plain_request"
    and n2: "no_credentials (request_with ''Bearer YWxpY2U6c2hoaGg='')"
    and n3: "no_credentials (request_with ''Basic !!!!'')"
    and n4: "no_credentials (request_with ''Basic YWxpY2U='')"
    using no_credentials_examples by simp_all
  show ?thesis
    using rej n1 n2 n3 n4
      ServeHTTP_no_credentials [OF n1, of ?c ?h NewRecorder False]
      ServeHTTP_no_credentials [OF n2, of ?c ?h NewRecorder False]
      ServeHTTP_no_credentials [OF n3, of ?c ?h NewRecorder False]
      ServeHTTP_no_credentials [OF n4, of ?c ?h NewRecorder False]
      ServeHTTP_no_credentials [OF n3, of "None_Check None_struct" ?h NewRecorder False]
    by (simp add: None_Check_def flagging_handler_def handlerFuncOK_NewRecorder)
qed

text \<open>
  A request that carries the credentials of the table is forwarded, one that carries
  others is rejected: the checker is asked about what the header holds.
\<close>

lemma ServeHTTP_Creds_alice:
  "ServeHTTP (NewHandler (Creds (Map (Map.empty(''alice'' \<mapsto> ''shhhh''))))
       (http_HandlerFunc flagging_handler)) NewRecorder
       (request_with ''Basic YWxpY2U6c2hoaGg='') False =
     (\<lparr>Code = 200, HeaderMap = Map.empty, Body = ''OK'', wroteHeader = True\<rparr>, True) \<and>
   ServeHTTP (NewHandler (Creds (Map (Map.empty(''bob'' \<mapsto> ''shhhh''))))
       (http_HandlerFunc flagging_handler)) NewRecorder
       (request_with ''Basic YWxpY2U6c2hoaGg='') False =
     (unauthorized NewRecorder, False)"
  by (simp add: NewHandler_def ServeHTTP_handler BasicAuth_alice Creds_def creds_Check_def
      index_ok_def flagging_handler_def handlerFuncOK_NewRecorder del: ServeHTTP.simps(2))

text \<open>
  C7. The function that \<open>HandlerFunc c f\<close> returns, used as a handler, serves every
  request as the handler \<open>NewHandler c f\<close> does. The two registration methods of
  \<open>ServeMux\<close> hand the router the same pattern with these two wrappers, both built with
  the checker of the \<open>ServeMux\<close>; so do the two functions \<open>Handle\<close> and \<open>HandleFunc\<close> of
  the package on the default router.
\<close>

theorem HandlerFunc_eq_NewHandler:
  "HandlerFunc c f w r \<sigma> = ServeHTTP (NewHandler c (http_HandlerFunc f)) w r \<sigma> \<and>
   ServeHTTP (http_HandlerFunc (HandlerFunc c f)) = ServeHTTP (NewHandler c (http_HandlerFunc f)) \<and>
   ServeMux_Handle http_Handle mx pattern (http_HandlerFunc f) =
     http_Handle (ServeMux_ServeMux mx) pattern
       (NewHandler (ServeMux_Checker mx) (http_HandlerFunc f)) \<and>
   ServeMux_HandleFunc http_Handle mx pattern f =
     http_Handle (ServeMux_ServeMux mx) pattern
       (http_HandlerFunc (HandlerFunc (ServeMux_Checker mx) f)) \<and>
   ServeHTTP (http_HandlerFunc (HandlerFunc (ServeMux_Checker mx) f)) =
     ServeHTTP (NewHandler (ServeMux_Checker mx) (http_HandlerFunc f)) \<and>
   Handle http_Handle c pattern (http_HandlerFunc f) mux =
     http_Handle mux pattern (NewHandler c (http_HandlerFunc f)) \<and>
   HandleFunc http_Handle c pattern f mux =
     http_Handle mux pattern (http_HandlerFunc (HandlerFunc c f))"
proof -
  have "ServeHTTP (http_HandlerFunc (HandlerFunc c' f)) = ServeHTTP (NewHandler c' (http_HandlerFunc f))"
    for c' :: Checker
    by (rule ext)+ (simp add: HandlerFunc_def)
  then show ?thesis
    by (simp add: HandlerFunc_def ServeMux_Handle_def ServeMux_HandleFunc_def Handle_def
        HandleFunc_def)
qed

section \<open>Properties of the signer and the signing client\<close>

lemma EncodeToString_alice_shhhh: "EncodeToString ''alice:shhhh'' = ''YWxpY2U6c2hoaGg=''"
  by (simp add: encodeStd_def)

lemma Sign_alice:
  "BasicAuthSigner_Sign alice plain_request = Inr (request_with ''Basic YWxpY2U6c2hoaGg='', None)"
  by (simp add: BasicAuthSigner_Sign_def SetBasicAuth_def Header_Set_def table_Set_def
      basicAuth_def canonical_Authorization alice_def plain_request_def request_with_def
      encodeStd_def)

text \<open>What \<open>Sign\<close> writes, \<open>BasicAuth\<close> reads back on the other side.\<close>

lemma BasicAuth_of_signed:
  "BasicAuthSigner_Sign alice plain_request = Inr (r, e) \<Longrightarrow>
   BasicAuth r = (''alice'', ''shhhh'', True)"
  using Sign_alice BasicAuth_alice by auto

text \<open>
  C8, as the specification has it, fails on a request whose header map is \<open>nil\<close> (the
  zero value of the field, which \<^verbatim>\<open>http.Client.Do\<close> accepts): \<open>SetBasicAuth\<close> stores
  into the map, and \<open>Sign\<close> panics instead of returning.
\<close>

theorem Sign_nil_Header_panics:
  "BasicAuthSigner_Sign \<lparr>User = ''alice'', Pass = ''shhhh''\<rparr>
     \<lparr>Method = ''GET'', URL = ''/'', Header = nil, ReqBody = None\<rparr> =
   Inl (panic ''assignment to entry in nil map'')"
  by (simp add: BasicAuthSigner_Sign_def SetBasicAuth_def Header_Set_def
      assignment_to_nil_map_def)

text \<open>
  C8, amended. On every request whose header map is not \<open>nil\<close>, \<open>Sign\<close> returns with the
  \<open>nil\<close> error and leaves the request as it was but for the header \<open>Authorization\<close>, which
  then has the one value \<open>Basic\<close>, a space and the base64 encoding of \<open>User:Pass\<close>.
\<close>

theorem Sign_sets_Authorization:
  assumes "Header r = Map t"
  shows "BasicAuthSigner_Sign b r =
           Inr (r\<lparr>Header := Map (t(''Authorization'' \<mapsto>
                  [''Basic '' @ EncodeToString (User b @ '':'' @ Pass b)]))\<rparr>, None)"
  using assms
  by (simp add: BasicAuthSigner_Sign_def SetBasicAuth_def Header_Set_def table_Set_def
      basicAuth_def canonical_Authorization)

theorem Sign_sets_Authorization_witness:
  "Header plain_request = Map Map.empty \<and>
   BasicAuthSigner_Sign alice plain_request =
     Inr (request_with ''Basic YWxpY2U6c2hoaGg='', None)"
proof -
  have h: "Header plain_request = Map Map.empty"
    by (simp add: plain_request_def)
  show ?thesis
    using h Sign_sets_Authorization [OF h, of alice]
    by (simp add: encodeStd_def request_with_def alice_def)
qed

lemma NewRequest_test_env:
  "http_NewRequest test_env ''GET'' ''/'' None = Inr plain_request"
  by (simp add: http_NewRequest_def test_env_def plain_request_def validMethod_def
      validHeaderFieldByte_def bytes_eval)

lemma NewRequest_Header:
  "http_NewRequest env method url body = Inr req \<Longrightarrow> Header req = Map Map.empty"
  by (auto simp: http_NewRequest_def Let_def split: if_splits sum.splits)

lemma echo_signed:
  "echo_client (request_with auth) n =
     ((Some \<lparr>StatusCode = 200, Response_Header = Map Map.empty, Response_Body = auth\<rparr>, None),
      Suc n)"
  by (simp add: echo_client_def Authorization_request_with)

text \<open>
  The method \<open>Do\<close> of \<open>Client\<close>, unlike the function \<open>Do\<close> of the package, has no
  replacement for a \<open>nil\<close> client: after a successful \<open>Sign\<close> it panics.
\<close>

lemma Client_Do_nil_client:
  "Client_Signer c req = Inr (req', None) \<Longrightarrow> Client_Client c = None \<Longrightarrow>
   Client_Do c req net = Inl nil_pointer_dereference"
  by (simp add: Client_Do_def http_Client_Do_def)

text \<open>
  C6. If \<open>Sign\<close> returns an error, \<open>Client.Do\<close> returns \<open>nil\<close> and that error and leaves
  the network as it was, whatever the client is: the client's \<open>Do\<close> has not run. If
  \<open>Sign\<close> returns \<open>nil\<close>, \<open>Client.Do\<close> is the client's \<open>Do\<close> on the request as \<open>Sign\<close> left
  it. \<open>Get\<close> and \<open>Head\<close> are \<open>Do\<close> on the request that \<open>http.NewRequest\<close> makes, \<open>Post\<close> is
  \<open>Do\<close> on that request with its \<open>Content-Type\<close> set, and \<open>PostForm\<close> is \<open>Post\<close>; when
  \<open>http.NewRequest\<close> fails they return its error and neither sign nor send.
\<close>

theorem Client_Do_signs_first:
  "(Client_Signer c req = Inr (req', Some err) \<longrightarrow>
      Client_Do c req net = Inr ((None, Some err), net)) \<and>
   (Client_Signer c req = Inr (req', None) \<and> Client_Client c = Some cl \<longrightarrow>
      Client_Do c req net = Inr (cl req' net)) \<and>
   (http_NewRequest env ''GET'' url None = Inr req \<longrightarrow>
      Client_Get env c url net = Client_Do c req net) \<and>
   (http_NewRequest env ''HEAD'' url None = Inr req \<longrightarrow>
      Client_Head env c url net = Client_Do c req net) \<and>
   (http_NewRequest env ''POST'' url body = Inr req \<longrightarrow>
      Client_Post env c url bodyType body net =
        Client_Do c (req\<lparr>Header := Map (Map.empty(''Content-Type'' \<mapsto> [bodyType]))\<rparr>) net) \<and>
   Client_PostForm env c url data net =
     Client_Post env c url ''application/x-www-form-urlencoded''
       (Some (Values_Encode env data)) net \<and>
   (http_NewRequest env ''GET'' url None = Inl err \<longrightarrow>
      Client_Get env c url net = Inr ((None, Some err), net)) \<and>
   (http_NewRequest env ''HEAD'' url None = Inl err \<longrightarrow>
      Client_Head env c url net = Inr ((None, Some err), net)) \<and>
   (http_NewRequest env ''POST'' url body = Inl err \<longrightarrow>
      Client_Post env c url bodyType body net = Inr ((None, Some err), net))"
proof -
  have post: "Client_Post env c url bodyType body net =
      Client_Do c (req\<lparr>Header := Map (Map.empty(''Content-Type'' \<mapsto> [bodyType]))\<rparr>) net"
    if "http_NewRequest env ''POST'' url body = Inr req"
    using that NewRequest_Header [OF that]
    by (simp add: Client_Post_def Header_Set_def table_Set_def canonical_Content_Type)
  show ?thesis
    using post
    by (simp add: Client_Do_def http_Client_Do_def Client_Get_def Client_Head_def
        Client_Post_def Client_PostForm_def)
qed

theorem Client_Do_signs_first_witness:
  "Client_Signer (NewClient (Some echo_client) failing_signer) plain_request =
     Inr (plain_request, Some (errorString ''no token'')) \<and>
   Client_Do (NewClient (Some echo_client) failing_signer) plain_request 0 =
     Inr ((None, Some (errorString ''no token'')), 0) \<and>
   Client_Signer (NewClient (Some echo_client) (BasicAuthSigner_Sign alice)) plain_request =
     Inr (request_with ''Basic YWxpY2U6c2hoaGg='', None) \<and>
   Client_Client (NewClient (Some echo_client) (BasicAuthSigner_Sign alice)) = Some echo_client \<and>
   Client_Do (NewClient (Some echo_client) (BasicAuthSigner_Sign alice)) plain_request 0 =
     Inr ((Some \<lparr>StatusCode = 200, Response_Header = Map Map.empty,
                  Response_Body = ''Basic YWxpY2U6c2hoaGg=''\<rparr>, None), 1) \<and>
   http_NewRequest test_env ''GET'' ''/'' None = Inr plain_request \<and>
   Client_Get test_env (NewClient (Some echo_client) failing_signer) ''/'' 0 =
     Inr ((None, Some (errorString ''no token'')), 0) \<and>
   Client_Get test_env (NewClient (Some echo_client) (BasicAuthSigner_Sign alice)) ''/'' 0 =
     Inr ((Some \<lparr>StatusCode = 200, Response_Header = Map Map.empty,
                  Response_Body = ''Basic YWxpY2U6c2hoaGg=''\<rparr>, None), 1)"
proof -
  let ?bad = "NewClient (Some echo_client) failing_signer"
  let ?good = "NewClient (Some echo_client) (BasicAuthSigner_Sign alice)"
  have s1: "Client_Signer ?bad plain_request = Inr (plain_request, Some (errorString ''no token''))"
    by (simp add: NewClient_def failing_signer_def)
  have s2: "Client_Signer ?good plain_request = Inr (request_with ''Basic YWxpY2U6c2hoaGg='', None)"
    by (simp add: NewClient_def Sign_alice)
  have cl: "Client_Client ?good = Some echo_client"
    by (simp add: NewClient_def)
  show ?thesis
    using s1 s2 cl NewRequest_test_env
      Client_Do_signs_first [of ?bad plain_request plain_request "errorString ''no token''" 0
        echo_client test_env "''/''" None "''''" nil]
      Client_Do_signs_first [of ?good plain_request "request_with ''Basic YWxpY2U6c2hoaGg=''"
        "errorString ''no token''" 0 echo_client test_env "''/''" None "''''" nil]
    by (simp add: echo_signed)
qed

lemma NewRequest_HEAD_test_env:
  "http_NewRequest test_env ''HEAD'' ''/'' None = Inr (plain_request\<lparr>Method := ''HEAD''\<rparr>)"
  by (simp add: http_NewRequest_def test_env_def plain_request_def validMethod_def
      validHeaderFieldByte_def bytes_eval)

lemma NewRequest_POST_test_env:
  "http_NewRequest test_env ''POST'' ''/'' body =
     Inr (plain_request\<lparr>Method := ''POST'', ReqBody := body\<rparr>)"
  by (simp add: http_NewRequest_def test_env_def plain_request_def validMethod_def
      validHeaderFieldByte_def bytes_eval)

lemma Sign_alice_on:
  "Header r = Map t \<Longrightarrow>
   BasicAuthSigner_Sign alice r =
     Inr (r\<lparr>Header := Map (t(''Authorization'' \<mapsto> [''Basic YWxpY2U6c2hoaGg='']))\<rparr>, None)"
  by (simp add: BasicAuthSigner_Sign_def SetBasicAuth_def Header_Set_def table_Set_def
      basicAuth_def canonical_Authorization alice_def encodeStd_def)

lemma echo_Authorization:
  "Header r = Map (t(''Authorization'' \<mapsto> [auth])) \<Longrightarrow>
   echo_client r n =
     ((Some \<lparr>StatusCode = 200, Response_Header = Map Map.empty, Response_Body = auth\<rparr>, None),
      Suc n)"
  by (simp add: echo_client_def Header_Get_def table_Get_def canonical_Authorization)

text \<open>
  C10. With a \<open>nil\<close> client the function \<open>Do\<close> of the package does what it does with
  the default client: after a successful \<open>Sign\<close> it is the default client's \<open>Do\<close> on the
  signed request, and it panics only if \<open>Sign\<close> does. \<open>Get\<close> and \<open>Head\<close> are \<open>Do\<close>, with
  the client they are given, on the request that \<open>http.NewRequest\<close> makes; \<open>Post\<close> is \<open>Do\<close>
  on that request with its \<open>Content-Type\<close> set; \<open>PostForm\<close> is \<open>Post\<close> with the encoded
  form as the body; when \<open>http.NewRequest\<close> fails they return its error. So with a \<open>nil\<close>
  client each of them, after a successful \<open>Sign\<close>, is the default client's \<open>Do\<close> on the
  signed request, and equals the same call with the default client.
\<close>

theorem Do_nil_client:
  "Do env s None req net = Do env s (Some (DefaultClient env)) req net \<and>
   (s req = Inr (req', None) \<longrightarrow> Do env s None req net = Inr (DefaultClient env req' net)) \<and>
   (s req = Inr (req', e) \<longrightarrow> Do env s None req net \<noteq> Inl nil_pointer_dereference) \<and>
   Get env s None url net = Get env s (Some (DefaultClient env)) url net \<and>
   Head env s None url net = Head env s (Some (DefaultClient env)) url net \<and>
   Post env s None url bodyType body net =
     Post env s (Some (DefaultClient env)) url bodyType body net \<and>
   PostForm env s None url data net = PostForm env s (Some (DefaultClient env)) url data net \<and>
   (http_NewRequest env ''GET'' url None = Inr rg \<longrightarrow>
      Get env s client url net = Do env s client rg net) \<and>
   (http_NewRequest env ''HEAD'' url None = Inr rh \<longrightarrow>
      Head env s client url net = Do env s client rh net) \<and>
   (http_NewRequest env ''POST'' url body = Inr rp \<longrightarrow>
      Post env s client url bodyType body net =
        Do env s client (rp\<lparr>Header := Map (Map.empty(''Content-Type'' \<mapsto> [bodyType]))\<rparr>) net) \<and>
   PostForm env s client url data net =
     Post env s client url ''application/x-www-form-urlencoded''
       (Some (Values_Encode env data)) net \<and>
   (http_NewRequest env ''GET'' url None = Inl err \<longrightarrow>
      Get env s client url net = Inr ((None, Some err), net)) \<and>
   (http_NewRequest env ''HEAD'' url None = Inl err \<longrightarrow>
      Head env s client url net = Inr ((None, Some err), net)) \<and>
   (http_NewRequest env ''POST'' url body = Inl err \<longrightarrow>
      Post env s client url bodyType body net = Inr ((None, Some err), net)) \<and>
   (http_NewRequest env ''GET'' url None = Inr rg \<and> s rg = Inr (rg', None) \<longrightarrow>
      Get env s None url net = Inr (DefaultClient env rg' net)) \<and>
   (http_NewRequest env ''HEAD'' url None = Inr rh \<and> s rh = Inr (rh', None) \<longrightarrow>
      Head env s None url net = Inr (DefaultClient env rh' net)) \<and>
   (http_NewRequest env ''POST'' url body = Inr rp \<and>
    s (rp\<lparr>Header := Map (Map.empty(''Content-Type'' \<mapsto> [bodyType]))\<rparr>) = Inr (rp', None) \<longrightarrow>
      Post env s None url bodyType body net = Inr (DefaultClient env rp' net)) \<and>
   (http_NewRequest env ''POST'' url (Some (Values_Encode env data)) = Inr rf \<and>
    s (rf\<lparr>Header := Map (Map.empty(''Content-Type'' \<mapsto>
         [''application/x-www-form-urlencoded'']))\<rparr>) = Inr (rf', None) \<longrightarrow>
      PostForm env s None url data net = Inr (DefaultClient env rf' net))"
proof -
  have nil_default: "Do env s None r net = Do env s (Some (DefaultClient env)) r net" for r
    by (simp add: Do_def)
  have sent: "Do env s None r net = Inr (DefaultClient env r' net)"
    if "s r = Inr (r', None)" for r r'
    using that by (simp add: Do_def http_Client_Do_def)
  have no_panic: "Do env s None req net \<noteq> Inl nil_pointer_dereference"
    if "s req = Inr (req', e)"
    using that by (cases e) (simp_all add: Do_def http_Client_Do_def)
  have post: "Post env s cl url ty bd net =
      Do env s cl (r\<lparr>Header := Map (Map.empty(''Content-Type'' \<mapsto> [ty]))\<rparr>) net"
    if "http_NewRequest env ''POST'' url bd = Inr r" for cl ty bd r
    using that NewRequest_Header [OF that]
    by (simp add: Post_def Header_Set_def table_Set_def canonical_Content_Type)
  have form: "PostForm env s cl url data net =
      Post env s cl url ''application/x-www-form-urlencoded'' (Some (Values_Encode env data)) net"
    for cl
    by (simp add: PostForm_def)
  have c1: "Get env s None url net = Get env s (Some (DefaultClient env)) url net"
    and c2: "Head env s None url net = Head env s (Some (DefaultClient env)) url net"
    by (simp_all add: Get_def Head_def nil_default split: sum.splits)
  have c3: "Post env s None url bodyType body net =
      Post env s (Some (DefaultClient env)) url bodyType body net" for bodyType body
    by (simp add: Post_def nil_default split: sum.splits)
  have c4: "PostForm env s None url data net = PostForm env s (Some (DefaultClient env)) url data net"
    by (simp add: PostForm_def c3)
  have g: "Get env s client url net = Do env s client rg net"
    if "http_NewRequest env ''GET'' url None = Inr rg"
    using that by (simp add: Get_def)
  have h: "Head env s client url net = Do env s client rh net"
    if "http_NewRequest env ''HEAD'' url None = Inr rh"
    using that by (simp add: Head_def)
  have ge: "Get env s client url net = Inr ((None, Some err), net)"
    if "http_NewRequest env ''GET'' url None = Inl err"
    using that by (simp add: Get_def)
  have he: "Head env s client url net = Inr ((None, Some err), net)"
    if "http_NewRequest env ''HEAD'' url None = Inl err"
    using that by (simp add: Head_def)
  have pe: "Post env s client url bodyType body net = Inr ((None, Some err), net)"
    if "http_NewRequest env ''POST'' url body = Inl err"
    using that by (simp add: Post_def)
  have gd: "Get env s None url net = Inr (DefaultClient env rg' net)"
    if "http_NewRequest env ''GET'' url None = Inr rg" and "s rg = Inr (rg', None)"
    using that by (simp add: Get_def sent)
  have hd: "Head env s None url net = Inr (DefaultClient env rh' net)"
    if "http_NewRequest env ''HEAD'' url None = Inr rh" and "s rh = Inr (rh', None)"
    using that by (simp add: Head_def sent)
  have pd: "Post env s None url ty bd net = Inr (DefaultClient env r' net)"
    if "http_NewRequest env ''POST'' url bd = Inr r"
      and "s (r\<lparr>Header := Map (Map.empty(''Content-Type'' \<mapsto> [ty]))\<rparr>) = Inr (r', None)"
    for ty bd r r'
    using post [OF that(1), of None ty] sent [OF that(2)] by simp
  have fd: "PostForm env s None url data net = Inr (DefaultClient env rf' net)"
    if "http_NewRequest env ''POST'' url (Some (Values_Encode env data)) = Inr rf"
      and "s (rf\<lparr>Header := Map (Map.empty(''Content-Type'' \<mapsto>
         [''application/x-www-form-urlencoded'']))\<rparr>) = Inr (rf', None)"
    using pd [OF that] by (simp add: form)
  show ?thesis
    using nil_default [of req] sent [of req req'] no_panic c1 c2 c3 [of bodyType body] c4
      g h post [of body rp client bodyType] form [of client] ge he pe gd hd
      pd [of body rp bodyType rp'] fd
    by blast
qed

theorem Do_nil_client_witness:
  "BasicAuthSigner_Sign alice plain_request =
     Inr (request_with ''Basic YWxpY2U6c2hoaGg='', None) \<and>
   Do test_env (BasicAuthSigner_Sign alice) None plain_request 0 =
     Inr ((Some \<lparr>StatusCode = 200, Response_Header = Map Map.empty,
                  Response_Body = ''Basic YWxpY2U6c2hoaGg=''\<rparr>, None), 1) \<and>
   Do test_env (BasicAuthSigner_Sign alice) (Some echo_client) plain_request 0 =
     Inr ((Some \<lparr>StatusCode = 200, Response_Header = Map Map.empty,
                  Response_Body = ''Basic YWxpY2U6c2hoaGg=''\<rparr>, None), 1) \<and>
   Get test_env (BasicAuthSigner_Sign alice) None ''/'' 0 =
     Inr ((Some \<lparr>StatusCode = 200, Response_Header = Map Map.empty,
                  Response_Body = ''Basic YWxpY2U6c2hoaGg=''\<rparr>, None), 1) \<and>
   http_NewRequest test_env ''HEAD'' ''/'' None = Inr (plain_request\<lparr>Method := ''HEAD''\<rparr>) \<and>
   BasicAuthSigner_Sign alice (plain_request\<lparr>Method := ''HEAD''\<rparr>) =
     Inr (plain_request\<lparr>Method := ''HEAD'',
            Header := Map (Map.empty(''Authorization'' \<mapsto> [''Basic YWxpY2U6c2hoaGg='']))\<rparr>,
          None) \<and>
   Head test_env (BasicAuthSigner_Sign alice) None ''/'' 0 =
     Inr ((Some \<lparr>StatusCode = 200, Response_Header = Map Map.empty,
                  Response_Body = ''Basic YWxpY2U6c2hoaGg=''\<rparr>, None), 1) \<and>
   http_NewRequest test_env ''POST'' ''/'' (Some ''a=b'') =
     Inr (plain_request\<lparr>Method := ''POST'', ReqBody := Some ''a=b''\<rparr>) \<and>
   Post test_env (BasicAuthSigner_Sign alice) None ''/'' ''text/plain'' (Some ''a=b'') 0 =
     Inr ((Some \<lparr>StatusCode = 200, Response_Header = Map Map.empty,
                  Response_Body = ''Basic YWxpY2U6c2hoaGg=''\<rparr>, None), 1) \<and>
   PostForm test_env (BasicAuthSigner_Sign alice) None ''/'' nil 0 =
     Inr ((Some \<lparr>StatusCode = 200, Response_Header = Map Map.empty,
                  Response_Body = ''Basic YWxpY2U6c2hoaGg=''\<rparr>, None), 1)"
proof -
  let ?s = "BasicAuthSigner_Sign alice"
  let ?auth = "''Basic YWxpY2U6c2hoaGg=''"
  let ?rh = "plain_request\<lparr>Method := ''HEAD''\<rparr>"
  let ?rh' = "plain_request\<lparr>Method := ''HEAD'',
      Header := Map (Map.empty(''Authorization'' \<mapsto> [?auth]))\<rparr>"
  let ?rp = "plain_request\<lparr>Method := ''POST'', ReqBody := Some ''a=b''\<rparr>"
  let ?rp' = "plain_request\<lparr>Method := ''POST'', ReqBody := Some ''a=b'',
      Header := Map ((Map.empty(''Content-Type'' \<mapsto> [''text/plain'']))
        (''Authorization'' \<mapsto> [?auth]))\<rparr>"
  let ?rf = "plain_request\<lparr>Method := ''POST'', ReqBody := Some ''''\<rparr>"
  let ?rf' = "plain_request\<lparr>Method := ''POST'', ReqBody := Some '''',
      Header := Map ((Map.empty(''Content-Type'' \<mapsto> [''application/x-www-form-urlencoded'']))
        (''Authorization'' \<mapsto> [?auth]))\<rparr>"
  have env: "DefaultClient test_env = echo_client" and enc: "Values_Encode test_env nil = ''''"
    by (simp_all add: test_env_def)
  have sh: "?s ?rh = Inr (?rh', None)"
    using Sign_alice_on [of ?rh Map.empty] by (simp add: plain_request_def)
  have sp: "?s (?rp\<lparr>Header := Map (Map.empty(''Content-Type'' \<mapsto> [''text/plain'']))\<rparr>) =
      Inr (?rp', None)"
    using Sign_alice_on [of "?rp\<lparr>Header := Map (Map.empty(''Content-Type'' \<mapsto> [''text/plain'']))\<rparr>"
        "Map.empty(''Content-Type'' \<mapsto> [''text/plain''])"]
    by (simp add: plain_request_def)
  have sf: "?s (?rf\<lparr>Header := Map (Map.empty(''Content-Type'' \<mapsto>
      [''application/x-www-form-urlencoded'']))\<rparr>) = Inr (?rf', None)"
    using Sign_alice_on [of "?rf\<lparr>Header := Map (Map.empty(''Content-Type'' \<mapsto>
        [''application/x-www-form-urlencoded'']))\<rparr>"
        "Map.empty(''Content-Type'' \<mapsto> [''application/x-www-form-urlencoded''])"]
    by (simp add: plain_request_def)
  have eh: "echo_client ?rh' 0 =
      ((Some \<lparr>StatusCode = 200, Response_Header = Map Map.empty, Response_Body = ?auth\<rparr>, None),
       Suc 0)"
    by (rule echo_Authorization [of _ Map.empty]) (simp add: plain_request_def)
  have ep: "echo_client ?rp' 0 =
      ((Some \<lparr>StatusCode = 200, Response_Header = Map Map.empty, Response_Body = ?auth\<rparr>, None),
       Suc 0)"
    by (rule echo_Authorization [of _ "Map.empty(''Content-Type'' \<mapsto> [''text/plain''])"])
      (simp add: plain_request_def)
  have ef: "echo_client ?rf' 0 =
      ((Some \<lparr>StatusCode = 200, Response_Header = Map Map.empty, Response_Body = ?auth\<rparr>, None),
       Suc 0)"
    by (rule echo_Authorization
        [of _ "Map.empty(''Content-Type'' \<mapsto> [''application/x-www-form-urlencoded''])"])
      (simp add: plain_request_def)
  note inst = Do_nil_client [where env = test_env and s = "?s" and req = plain_request
      and net = 0 and req' = "request_with ?auth" and e = None and url = "''/''"
      and bodyType = "''text/plain''" and body = "Some ''a=b''" and data = nil
      and rg = plain_request and rg' = "request_with ?auth"
      and rh = "?rh" and rh' = "?rh'" and rp = "?rp" and rp' = "?rp'"
      and rf = "?rf" and rf' = "?rf'" and client = None]
  have nh: "http_NewRequest test_env ''HEAD'' ''/'' None = Inr ?rh"
    by (rule NewRequest_HEAD_test_env)
  have np: "http_NewRequest test_env ''POST'' ''/'' (Some ''a=b'') = Inr ?rp"
    by (rule NewRequest_POST_test_env)
  have nf: "http_NewRequest test_env ''POST'' ''/'' (Some (Values_Encode test_env nil)) = Inr ?rf"
    unfolding enc by (rule NewRequest_POST_test_env)
  have d0: "Do test_env ?s None plain_request 0 = Inr (DefaultClient test_env (request_with ?auth) 0)"
    using inst Sign_alice by blast
  have d1: "Do test_env ?s (Some (DefaultClient test_env)) plain_request 0 =
      Inr (DefaultClient test_env (request_with ?auth) 0)"
    using inst d0 by simp
  have g0: "Get test_env ?s None ''/'' 0 = Inr (DefaultClient test_env (request_with ?auth) 0)"
    using inst NewRequest_test_env Sign_alice by blast
  have h0: "Head test_env ?s None ''/'' 0 = Inr (DefaultClient test_env ?rh' 0)"
    using inst nh sh by blast
  have p0: "Post test_env ?s None ''/'' ''text/plain'' (Some ''a=b'') 0 =
      Inr (DefaultClient test_env ?rp' 0)"
    using inst np sp by blast
  have f0: "PostForm test_env ?s None ''/'' nil 0 = Inr (DefaultClient test_env ?rf' 0)"
    using inst nf sf by blast
  show ?thesis
    unfolding d0 d1 [unfolded env] g0 h0 p0 f0 env eh ep ef echo_signed
    using Sign_alice nh sh np by simp
qed

section \<open>What the signer writes, the handler reads\<close>

lemma index_from_nth:
  "distinct xs \<Longrightarrow> i < length xs \<Longrightarrow> index_from k xs (xs ! i) = Some (k + i)"
proof (induction xs arbitrary: k i)
  case Nil
  then show ?case by simp
next
  case (Cons x xs)
  show ?case
  proof (cases i)
    case 0
    then show ?thesis by simp
  next
    case (Suc j)
    with Cons.prems have "xs ! j \<noteq> x" and "distinct xs" and "j < length xs"
      by auto
    with Cons.IH [of j "k + 1"] Suc show ?thesis by simp
  qed
qed

lemma distinct_encodeStd: "distinct encodeStd"
  by (simp add: encodeStd_def)

lemma length_encodeStd: "length encodeStd = 64"
  by (simp add: encodeStd_def)

lemma decodeMap_encodeStd: "i < 64 \<Longrightarrow> decodeMap (encodeStd ! i) = Some i"
  using index_from_nth [OF distinct_encodeStd, of i 0]
  by (simp add: decodeMap_def length_encodeStd)

lemma encodeStd_plain:
  "ch \<in> set encodeStd \<Longrightarrow> ch \<noteq> CHR ''='' \<and> ch \<noteq> CHR 0x0A \<and> ch \<noteq> CHR 0x0D"
  by (auto simp: encodeStd_def)

lemma encodeStd_nth_plain:
  "i < 64 \<Longrightarrow> encodeStd ! i \<noteq> CHR ''='' \<and> encodeStd ! i \<noteq> CHR 0x0A \<and> encodeStd ! i \<noteq> CHR 0x0D"
  using encodeStd_plain [of "encodeStd ! i"] by (simp add: length_encodeStd)

lemma byte_of_char: "byte (of_char ch) = ch"
  by (simp add: byte_def)

lemma quantum_digits:
  fixes v :: nat
  assumes "v < 16777216"
  shows "(v div 262144 mod 64) * 262144 + (v div 4096 mod 64) * 4096 +
           (v div 64 mod 64) * 64 + v mod 64 = v"
proof -
  define q1 where "q1 = v div 64"
  define q2 where "q2 = q1 div 64"
  define q3 where "q3 = q2 div 64"
  have d2: "v div 4096 = q2"
    unfolding q2_def q1_def by (simp add: div_mult2_eq [symmetric])
  have d3: "v div 262144 = q3"
    unfolding q3_def q2_def q1_def by (simp add: div_mult2_eq [symmetric])
  have small: "q3 < 64"
    using assms d3 by (simp add: less_mult_imp_div_less flip: d3)
  have e1: "v = q1 * 64 + v mod 64"
    unfolding q1_def by simp
  have e2: "q1 = q2 * 64 + q1 mod 64"
    unfolding q2_def by simp
  have e3: "q2 = q3 * 64 + q2 mod 64"
    unfolding q3_def by simp
  have "q3 mod 64 = q3"
    using small by simp
  then have "(q3 mod 64) * 262144 + (q2 mod 64) * 4096 + (q1 mod 64) * 64 + v mod 64 =
      ((q3 * 64 + q2 mod 64) * 64 + q1 mod 64) * 64 + v mod 64"
    by (simp add: algebra_simps)
  also have "\<dots> = v"
    using e1 e2 e3 by simp
  finally show ?thesis
    by (simp add: d2 d3 q1_def)
qed

lemma quantum_bytes:
  fixes a b c :: nat
  assumes "b < 256" "c < 256"
  shows "(a * 65536 + b * 256 + c) div 65536 = a"
    and "(a * 65536 + b * 256 + c) div 256 mod 256 = b"
    and "(a * 65536 + b * 256 + c) mod 256 = c"
proof -
  have "b * 256 + c < 65536"
    using assms by simp
  then show "(a * 65536 + b * 256 + c) div 65536 = a"
    by (simp add: add.assoc)
  have "(a * 65536 + b * 256 + c) div 256 = a * 256 + b"
    using assms by simp
  then show "(a * 65536 + b * 256 + c) div 256 mod 256 = b"
    using assms by simp
  have "a * 65536 + b * 256 + c = (a * 256 + b) * 256 + c"
    by simp
  then show "(a * 65536 + b * 256 + c) mod 256 = c"
    using assms by (simp only: mod_mult_self3 mod_less)
qed

lemma decodeQuanta_full:
  assumes "x < 64" "y < 64" "z < 64" "t < 64"
  shows "decodeQuanta (encodeStd ! x # encodeStd ! y # encodeStd ! z # encodeStd ! t # rest) =
           (case decodeQuanta rest of
              None \<Rightarrow> None
            | Some bs \<Rightarrow>
                Some (byte ((x * 262144 + y * 4096 + z * 64 + t) div 65536) #
                      byte ((x * 262144 + y * 4096 + z * 64 + t) div 256) #
                      byte (x * 262144 + y * 4096 + z * 64 + t) # bs))"
  using assms encodeStd_nth_plain [of z] encodeStd_nth_plain [of t]
  by (simp add: decodeMap_encodeStd split: option.splits)

lemma decodeQuanta_two:
  assumes "x < 64" "y < 64" "z < 64"
  shows "decodeQuanta [encodeStd ! x, encodeStd ! y, encodeStd ! z, CHR ''=''] =
           Some [byte ((x * 262144 + y * 4096 + z * 64) div 65536),
                 byte ((x * 262144 + y * 4096 + z * 64) div 256)]"
  using assms encodeStd_nth_plain [of z]
  by (simp add: decodeMap_encodeStd)

lemma decodeQuanta_one:
  assumes "x < 64" "y < 64"
  shows "decodeQuanta [encodeStd ! x, encodeStd ! y, CHR ''='', CHR ''=''] =
           Some [byte ((x * 262144 + y * 4096) div 65536)]"
  using assms by (simp add: decodeMap_encodeStd)

lemma byte_mod: "byte (v mod 256) = byte v"
  by (simp add: byte_def)

lemma decode_three:
  fixes a b c :: char
  defines "v \<equiv> of_char a * 65536 + of_char b * 256 + of_char c :: nat"
  shows "decodeQuanta (encodeStd ! (v div 262144 mod 64) # encodeStd ! (v div 4096 mod 64) #
           encodeStd ! (v div 64 mod 64) # encodeStd ! (v mod 64) # rest) =
         (case decodeQuanta rest of None \<Rightarrow> None | Some bs \<Rightarrow> Some (a # b # c # bs))"
proof -
  have A: "of_char a < (256 :: nat)" and B: "of_char b < (256 :: nat)"
    and C: "of_char c < (256 :: nat)"
    by simp_all
  have v: "v < 16777216"
    using A B C unfolding v_def by linarith
  have b1: "byte (v div 65536) = a"
    unfolding v_def using quantum_bytes(1) [OF B C, of "of_char a"] by (simp add: byte_of_char)
  have "byte (v div 256 mod 256) = b"
    unfolding v_def using quantum_bytes(2) [OF B C, of "of_char a"] by (simp add: byte_of_char)
  then have b2: "byte (v div 256) = b"
    by (simp only: byte_mod)
  have "byte (v mod 256) = c"
    unfolding v_def using quantum_bytes(3) [OF B C, of "of_char a"] by (simp add: byte_of_char)
  then have b3: "byte v = c"
    by (simp only: byte_mod)
  show ?thesis
    using decodeQuanta_full [of "v div 262144 mod 64" "v div 4096 mod 64" "v div 64 mod 64"
        "v mod 64" rest]
    by (simp only: quantum_digits [OF v] b1 b2 b3)
qed

lemma decode_two:
  fixes a b :: char
  defines "v \<equiv> of_char a * 65536 + of_char b * 256 :: nat"
  shows "decodeQuanta [encodeStd ! (v div 262144 mod 64), encodeStd ! (v div 4096 mod 64),
           encodeStd ! (v div 64 mod 64), CHR ''=''] = Some [a, b]"
proof -
  have A: "of_char a < (256 :: nat)" and B: "of_char b < (256 :: nat)"
    by simp_all
  have v: "v < 16777216"
    using A B unfolding v_def by linarith
  have v0: "v = of_char a * 65536 + of_char b * 256 + 0"
    by (simp add: v_def)
  have "v = (of_char a * 1024 + of_char b * 4) * 64"
    by (simp add: v_def)
  then have m: "v mod 64 = 0"
    by (simp only: mod_mult_self2_is_0)
  have digits: "(v div 262144 mod 64) * 262144 + (v div 4096 mod 64) * 4096 +
      (v div 64 mod 64) * 64 = v"
    using quantum_digits [OF v] by (simp only: m add_0_right)
  have b1: "byte (v div 65536) = a"
    unfolding v0 using quantum_bytes(1) [OF B, of 0 "of_char a"] by (simp add: byte_of_char)
  have "byte (v div 256 mod 256) = b"
    unfolding v0 using quantum_bytes(2) [OF B, of 0 "of_char a"] by (simp add: byte_of_char)
  then have b2: "byte (v div 256) = b"
    by (simp only: byte_mod)
  show ?thesis
    using decodeQuanta_two [of "v div 262144 mod 64" "v div 4096 mod 64" "v div 64 mod 64"]
    by (simp only: digits b1 b2)
qed

lemma decode_one:
  fixes a :: char
  defines "v \<equiv> of_char a * 65536 :: nat"
  shows "decodeQuanta [encodeStd ! (v div 262144 mod 64), encodeStd ! (v div 4096 mod 64),
           CHR ''='', CHR ''=''] = Some [a]"
proof -
  have A: "of_char a < (256 :: nat)"
    by simp
  have v: "v < 16777216"
    using A unfolding v_def by linarith
  have v0: "v = of_char a * 65536 + 0 * 256 + 0"
    by (simp add: v_def)
  have "v = (of_char a * 1024) * 64"
    by (simp add: v_def)
  then have m: "v mod 64 = 0" and q: "v div 64 = (of_char a * 16) * 64"
    by simp_all
  have m2: "v div 64 mod 64 = 0"
    by (simp only: q mod_mult_self2_is_0)
  have digits: "(v div 262144 mod 64) * 262144 + (v div 4096 mod 64) * 4096 = v"
    using quantum_digits [OF v] by (simp only: m m2 mult_zero_left add_0_right)
  have b1: "byte (v div 65536) = a"
    unfolding v0 using quantum_bytes(1) [of 0 0 "of_char a"] by (simp add: byte_of_char)
  show ?thesis
    using decodeQuanta_one [of "v div 262144 mod 64" "v div 4096 mod 64"]
    by (simp only: digits b1)
qed

lemma decodeQuanta_EncodeToString: "decodeQuanta (EncodeToString s) = Some s"
proof (induction s rule: EncodeToString.induct)
  case (1 a b c rest)
  then show ?case
    using decode_three [of a b c "EncodeToString rest"] by (simp add: Let_def)
next
  case (2 a b)
  show ?case
    using decode_two [of a b] by (simp add: Let_def)
next
  case (3 a)
  show ?case
    using decode_one [of a] by (simp add: Let_def)
next
  case 4
  show ?case by simp
qed

lemma EncodeToString_letters:
  "set (EncodeToString s) \<subseteq> insert (CHR ''='') (set encodeStd)"
proof (induction s rule: EncodeToString.induct)
  case (1 a b c rest)
  then show ?case
    by (simp add: Let_def length_encodeStd)
next
  case (2 a b)
  show ?case by (simp add: Let_def length_encodeStd)
next
  case (3 a)
  show ?case by (simp add: Let_def length_encodeStd)
next
  case 4
  show ?case by simp
qed

text \<open>Decoding undoes encoding.\<close>

lemma DecodeString_EncodeToString: "DecodeString (EncodeToString s) = Some s"
proof -
  have "ch \<noteq> CHR 0x0A \<and> ch \<noteq> CHR 0x0D" if "ch \<in> set (EncodeToString s)" for ch
    using that EncodeToString_letters [of s] encodeStd_plain [of ch] by auto
  then have "filter (\<lambda>ch. ch \<noteq> CHR 0x0A \<and> ch \<noteq> CHR 0x0D) (EncodeToString s) = EncodeToString s"
    by (simp add: filter_id_conv)
  then show ?thesis
    by (simp add: DecodeString_def decodeQuanta_EncodeToString)
qed
lemma SetBasicAuth_Map:
  "Header r = Map t \<Longrightarrow>
   SetBasicAuth r u p =
     Inr (r\<lparr>Header := Map (t(''Authorization'' \<mapsto> [''Basic '' @ EncodeToString (u @ '':'' @ p)]))\<rparr>)"
  by (simp add: SetBasicAuth_def Header_Set_def table_Set_def basicAuth_def
      canonical_Authorization)

lemma parseBasicAuth_encoded:
  assumes "CHR '':'' \<notin> set u"
  shows "parseBasicAuth (''Basic '' @ EncodeToString (u @ '':'' @ p)) = (u, p, True)"
proof -
  have ne: "ch \<noteq> CHR '':''" if "ch \<in> set u" for ch
    using that assms by auto
  have tw: "takeWhile (\<lambda>ch. ch \<noteq> CHR '':'') (u @ CHR '':'' # p) = u"
    using takeWhile_append2 [of u "\<lambda>ch. ch \<noteq> CHR '':''" "CHR '':'' # p"] ne by simp
  have dw: "dropWhile (\<lambda>ch. ch \<noteq> CHR '':'') (u @ CHR '':'' # p) = CHR '':'' # p"
    using dropWhile_append2 [of u "\<lambda>ch. ch \<noteq> CHR '':''" "CHR '':'' # p"] ne by simp
  show ?thesis
    by (simp add: parseBasicAuth_cases EqualFold_def DecodeString_EncodeToString tw dw)
qed

text \<open>
  The credentials of a \<open>BasicAuthSigner\<close> whose user name has no colon arrive at the
  checker as they are: \<open>BasicAuth\<close> of the signed request is \<open>(User, Pass, true)\<close>, and the
  handler forwards the signed request exactly when the checker accepts that pair.
\<close>

lemma BasicAuth_after_Sign:
  assumes "Header r = Map t" and "CHR '':'' \<notin> set (User b)"
    and "BasicAuthSigner_Sign b r = Inr (r', e)"
  shows "BasicAuth r' = (User b, Pass b, True)"
proof -
  from assms(3) SetBasicAuth_Map [OF assms(1), of "User b" "Pass b"]
  have "Header r' = Map (t(''Authorization'' \<mapsto>
      [''Basic '' @ EncodeToString (User b @ '':'' @ Pass b)]))"
    by (auto simp: BasicAuthSigner_Sign_def)
  then have "Header_Get (Header r') ''Authorization'' =
      ''Basic '' @ EncodeToString (User b @ '':'' @ Pass b)"
    by (simp add: Header_Get_def table_Get_def canonical_Authorization)
  then show ?thesis
    using parseBasicAuth_encoded [OF assms(2), of "Pass b"]
    by (simp add: BasicAuth_def)
qed

lemma ServeHTTP_after_Sign:
  assumes "Header r = Map t" and "CHR '':'' \<notin> set (User b)"
    and "BasicAuthSigner_Sign b r = Inr (r', e)"
  shows "ServeHTTP (NewHandler c h) w r' \<sigma> =
           (if c (User b) (Pass b) then ServeHTTP h w r' \<sigma> else (unauthorized w, \<sigma>))"
  using BasicAuth_after_Sign [OF assms]
  by (simp add: NewHandler_def ServeHTTP_handler del: ServeHTTP.simps(2))

lemma ServeHTTP_Creds_after_Sign:
  assumes "Header r = Map t" and "CHR '':'' \<notin> set (User b)"
    and "BasicAuthSigner_Sign b r = Inr (r', e)"
  shows "ServeHTTP (NewHandler (Creds mp) h) w r' \<sigma> =
           (if contains_pair mp (User b) (Pass b) then ServeHTTP h w r' \<sigma>
            else (unauthorized w, \<sigma>))"
proof -
  have "Creds mp (User b) (Pass b) = contains_pair mp (User b) (Pass b)"
    by (auto simp: Creds_def creds_Check_def index_ok_def contains_pair_def
        split: go_map.splits option.splits)
  with ServeHTTP_after_Sign [OF assms, of "Creds mp" h w \<sigma>] show ?thesis
    by simp
qed

end
